theory Spec2Isabelle
  imports Complex_Main "HOL-Library.AList"
begin

section \<open>Errors\<close>

text \<open>
  Every \<^verbatim>\<open>raise\<close> of \<^verbatim>\<open>weldx/core.py\<close> is a value: the Python exception class
  together with the message of the raise site.  An \<^verbatim>\<open>except\<close> clause of the source
  inspects the class only.
\<close>

datatype exc_class =
    ValueError | KeyError | TypeError | PlainException | AttributeError
  | DimensionalityError | UnboundLocalError | IndexError

datatype message =
    AlreadyParameters "string set"
      \<comment> \<open>"The variables {...} are already defined as parameters."\<close>
  | NoSuchParameter string
      \<comment> \<open>'The expression does not have a parameter "k"'\<close>
  | OneFreeVariable
      \<comment> \<open>"The mathematical expression must have exactly 1 free variable that represents time."\<close>
  | CheckParameterUnits
      \<comment> \<open>"Expression can not be evaluated with weldx.Quantity(1, seconds). Ensure that every
          parameter posses the correct unit."\<close>
  | TimeDeltaArrays message
      \<comment> \<open>"The expression can not be evaluated with arrays of time deltas. Ensure that all
          parameters that are multiplied with the time variable have an outer dimension of
          size 1. ... The original error message was: ..."\<close>
  | PatternMismatch
      \<comment> \<open>"The provided 'DataArray' does not match the required pattern. It needs to have a
          dimension called 'time' with coordinates of type 'timedelta64[ns]'. ..."\<close>
  | DataNotQuantity
      \<comment> \<open>"The data of the 'DataArray' must be a 'pint.Quantity'."\<close>
  | InvalidInterpolation string
      \<comment> \<open>"A valid interpolation method must be specified if discrete values are used. ..."\<close>
  | UnsupportedType
      \<comment> \<open>'The data type "..." is not supported.'\<close>
  | NoVariables
      \<comment> \<open>"The passed expression has no variables."\<close>
  | NotAVariable string
      \<comment> \<open>"k is not a variable of the expression: ..."\<close>
  | UnitDimensionality message
      \<comment> \<open>"Expression can not be evaluated due to a unit dimensionality error. ..."\<close>
  | MismatchingArrayLengths message
      \<comment> \<open>"During the evaluation of the expression mismatching array lengths' were detected. ..."\<close>
  | NotAValidDimension string
      \<comment> \<open>"'k' is not a valid dimension."\<close>
  | NotAQuantity string
      \<comment> \<open>"Value for parameter k is not a quantity."\<close>
  | MissingKey string
      \<comment> \<open>the bare key of a failed dictionary or coordinate lookup\<close>
  | Library string
      \<comment> \<open>raised inside numpy, pint, xarray or the lambdified sympy function\<close>

type_synonym error = "exc_class \<times> message"

text \<open>
  An exception raised inside a library carries the library's own message; it reaches the
  caller with its class unchanged.
\<close>

type_synonym lib_error = "exc_class \<times> string"

definition from_library :: "lib_error + 'a \<Rightarrow> error + 'a" where
  "from_library r = (case r of Inl (c, m) \<Rightarrow> Inl (c, Library m) | Inr x \<Rightarrow> Inr x)"

section \<open>Unit-tagged quantities and labelled arrays\<close>

text \<open>
  A \<^verbatim>\<open>pint.Unit\<close> is its canonical name.  Magnitudes are exact rationals, stored
  flattened (row-major) beside the shape; no property below depends on rounding.
\<close>

type_synonym pint_unit = string

record quantity =
  q_mag :: "rat list"
  q_shape :: "nat list"
  q_units :: pint_unit

text \<open>What the source hands to \<^verbatim>\<open>Q_\<close>: a bare number or array, or a quantity;
  \<open>Qty\<close> is \<^verbatim>\<open>Q_\<close>.\<close>

datatype quantity_like = Number "rat list" "nat list" | Quantity quantity

fun Qty :: "quantity_like \<Rightarrow> quantity" where
  "Qty (Number m s) = \<lparr>q_mag = m, q_shape = s, q_units = ''dimensionless''\<rparr>"
| "Qty (Quantity q) = q"

text \<open>\<^verbatim>\<open>np.expand_dims(v, 0)\<close>, applied by the source only when \<^verbatim>\<open>len(v.shape) == 0\<close>.\<close>

definition expand_scalar :: "quantity \<Rightarrow> quantity" where
  "expand_scalar q = (if q_shape q = [] then q\<lparr>q_shape := [1]\<rparr> else q)"

datatype coord_data = Timedelta64 "int list" | Numeric "rat list"

record coord =
  c_dims :: "string list"
  c_data :: coord_data
  c_attrs :: "(string \<times> string) list"

text \<open>
  An \<^verbatim>\<open>xarray.DataArray\<close>.  \<open>da_units\<close> is \<open>Some u\<close> exactly when \<^verbatim>\<open>.data\<close> is a
  \<^verbatim>\<open>pint.Quantity\<close> with unit \<open>u\<close>.
\<close>

record data_array =
  da_data :: "rat list"
  da_shape :: "nat list"
  da_units :: "pint_unit option"
  da_dims :: "string list"
  da_coords :: "(string \<times> coord) list"
  da_attrs :: "(string \<times> string) list"

text \<open>A Python \<^verbatim>\<open>dims\<close> argument is a single string or a list of strings.\<close>

datatype dimspec = DimStr string | DimList "string list"

text \<open>\<^verbatim>\<open>xr.DataArray(..., dims=d)\<close> reads a string as one dimension name.\<close>

fun dim_names :: "dimspec \<Rightarrow> string list" where
  "dim_names (DimStr s) = [s]"
| "dim_names (DimList l) = l"

text \<open>\<^verbatim>\<open>set(d)\<close>: the characters of a string, the elements of a list.\<close>

fun dim_set :: "dimspec \<Rightarrow> string set" where
  "dim_set (DimStr s) = (\<lambda>c. [c]) ` set s"
| "dim_set (DimList l) = set l"

text \<open>\<^verbatim>\<open>d[0]\<close>: the first character of a string, the first element of a list.\<close>

fun dim_first :: "dimspec \<Rightarrow> error + string" where
  "dim_first (DimStr []) = Inl (IndexError, Library ''string index out of range'')"
| "dim_first (DimStr (c # s)) = Inr [c]"
| "dim_first (DimList []) = Inl (IndexError, Library ''list index out of range'')"
| "dim_first (DimList (x # l)) = Inr x"

fun digit_of :: "nat \<Rightarrow> char" where
  "digit_of n = (''0123456789'' ! (n mod 10))"

fun string_of_nat :: "nat \<Rightarrow> string" where
  "string_of_nat n =
     (if n < 10 then [digit_of n] else string_of_nat (n div 10) @ [digit_of (n mod 10)])"

declare string_of_nat.simps [simp del]

fun default_dims :: "nat \<Rightarrow> string list" where
  "default_dims 0 = []"
| "default_dims (Suc n) = default_dims n @ [''dim_'' @ string_of_nat n]"

fun coord_len :: "coord_data \<Rightarrow> nat" where
  "coord_len (Timedelta64 l) = length l"
| "coord_len (Numeric l) = length l"

text \<open>
  \<^verbatim>\<open>xr.DataArray(data, dims=..., coords={name: values})\<close>.  Without \<^verbatim>\<open>dims\<close> the
  dimensions are \<^verbatim>\<open>dim_0\<close>, \<^verbatim>\<open>dim_1\<close>, ...; with \<^verbatim>\<open>dims\<close> their number must be the
  number of axes; a coordinate given as a bare array is indexed by the dimension of its
  own name and must have that dimension's length.
\<close>

definition axis_len :: "string list \<Rightarrow> nat list \<Rightarrow> string \<Rightarrow> nat option" where
  "axis_len ds sh d = map_of (zip ds sh) d"

definition DataArray_new ::
  "rat list \<Rightarrow> nat list \<Rightarrow> pint_unit option \<Rightarrow> dimspec option \<Rightarrow> (string \<times> coord_data \<times> (string \<times> string) list) list
     \<Rightarrow> error + data_array" where
  "DataArray_new m sh u dims coords =
     (let ds = (case dims of None \<Rightarrow> default_dims (length sh) | Some d \<Rightarrow> dim_names d) in
      if length ds \<noteq> length sh
        then Inl (ValueError, Library ''different number of dimensions on data and dims'')
      else if list_ex (\<lambda>(c, vs, a). axis_len ds sh c \<noteq> Some (coord_len vs)) coords
        then Inl (ValueError, Library ''coordinate does not match the dimensions of the array'')
      else Inr \<lparr>da_data = m, da_shape = sh, da_units = u, da_dims = ds,
                da_coords = map (\<lambda>(c, vs, a). (c, \<lparr>c_dims = [c], c_data = vs, c_attrs = a\<rparr>)) coords,
                da_attrs = []\<rparr>)"

definition DataArray_of_quantity :: "quantity \<Rightarrow> dimspec option \<Rightarrow> error + data_array" where
  "DataArray_of_quantity q dims = DataArray_new (q_mag q) (q_shape q) (Some (q_units q)) dims []"

definition DataArray_of_value :: "quantity_like \<Rightarrow> dimspec option \<Rightarrow> error + data_array" where
  "DataArray_of_value v dims =
     (case v of Number m s \<Rightarrow> DataArray_new m s None dims []
              | Quantity q \<Rightarrow> DataArray_of_quantity q dims)"

text \<open>\<^verbatim>\<open>v.size\<close>: the product of the shape.\<close>

definition da_size :: "data_array \<Rightarrow> nat" where
  "da_size a = prod_list (da_shape a)"

section \<open>MathematicalExpression\<close>

text \<open>
  A sympy expression is kept by what the source reads of it: its printed form (structural
  equality), its free symbols in the iteration order of \<^verbatim>\<open>free_symbols\<close>, and the body
  of the function \<^verbatim>\<open>sympy.lambdify\<close> compiles from it.
\<close>

record sympy_expr =
  se_repr :: string
  se_free_symbols :: "string list"
  se_body :: "(string \<times> data_array) list \<Rightarrow> lib_error + data_array"

text \<open>A stored parameter is a \<^verbatim>\<open>DataArray\<close> or the quantity \<^verbatim>\<open>Q_(v)\<close>.\<close>

datatype param = ParamQuantity quantity | ParamArray data_array

text \<open>A parameter as passed in: a value, a tuple \<^verbatim>\<open>(value, dims)\<close>, or a \<^verbatim>\<open>DataArray\<close>.\<close>

datatype param_in = InValue quantity_like | InTuple quantity_like dimspec | InArray data_array

record expression =
  me_expression :: sympy_expr
  me_parameters :: "(string \<times> param) list"

text \<open>
  The lambdified function takes exactly one keyword per free symbol; Python raises
  \<^verbatim>\<open>TypeError\<close> on a missing or an unexpected keyword before the body runs.
\<close>

definition me_function :: "expression \<Rightarrow> (string \<times> data_array) list \<Rightarrow> error + data_array" where
  "me_function e args =
     (if set (map fst args) \<noteq> set (se_free_symbols (me_expression e))
        then Inl (TypeError, Library ''missing or unexpected keyword argument'')
      else from_library (se_body (me_expression e) args))"

fun set_parameter :: "expression \<Rightarrow> string \<Rightarrow> param_in \<Rightarrow> error + expression" where
  "set_parameter e k v =
     (if k \<notin> set (se_free_symbols (me_expression e)) then Inl (ValueError, NoSuchParameter k)
      else case v of
             InTuple x d \<Rightarrow>
               (case DataArray_of_value x (Some d) of
                  Inl err \<Rightarrow> Inl err
                | Inr a \<Rightarrow> Inr (e\<lparr>me_parameters := AList.update k (ParamArray a) (me_parameters e)\<rparr>))
           | InArray a \<Rightarrow> Inr (e\<lparr>me_parameters := AList.update k (ParamArray a) (me_parameters e)\<rparr>)
           | InValue x \<Rightarrow>
               Inr (e\<lparr>me_parameters := AList.update k (ParamQuantity (Qty x)) (me_parameters e)\<rparr>))"

text \<open>\<^verbatim>\<open>set_parameters\<close>: the loop over \<^verbatim>\<open>params.items()\<close>; it stops at the first raise.\<close>

fun set_parameters :: "expression \<Rightarrow> (string \<times> param_in) list \<Rightarrow> error + expression" where
  "set_parameters e [] = Inr e"
| "set_parameters e ((k, v) # ps) =
     (case set_parameter e k v of Inl err \<Rightarrow> Inl err | Inr e' \<Rightarrow> set_parameters e' ps)"

definition MathematicalExpression ::
  "sympy_expr \<Rightarrow> (string \<times> param_in) list option \<Rightarrow> error + expression" where
  "MathematicalExpression ex params =
     (let e = \<lparr>me_expression = ex, me_parameters = []\<rparr> in
      case params of None \<Rightarrow> Inr e | Some ps \<Rightarrow> set_parameters e ps)"

definition num_parameters :: "expression \<Rightarrow> int" where
  "num_parameters e = int (length (me_parameters e))"

definition num_variables :: "expression \<Rightarrow> int" where
  "num_variables e = int (length (se_free_symbols (me_expression e))) - int (length (me_parameters e))"

definition get_variable_names :: "expression \<Rightarrow> string list" where
  "get_variable_names e =
     filter (\<lambda>v. v \<notin> set (map fst (me_parameters e))) (se_free_symbols (me_expression e))"

text \<open>A keyword argument of \<^verbatim>\<open>evaluate\<close>: a \<^verbatim>\<open>DataArray\<close>, or anything \<^verbatim>\<open>Q_\<close> accepts.\<close>

datatype kwarg = KwArray data_array | KwValue quantity_like

definition variable_array :: "kwarg \<Rightarrow> error + data_array" where
  "variable_array v = (case v of KwArray a \<Rightarrow> Inr a | KwValue x \<Rightarrow> DataArray_of_quantity (Qty x) None)"

definition parameter_array :: "param \<Rightarrow> error + data_array" where
  "parameter_array p = (case p of ParamArray a \<Rightarrow> Inr a | ParamQuantity q \<Rightarrow> DataArray_of_quantity q None)"

text \<open>A dictionary comprehension over fallible conversions: the first raise wins.\<close>

fun map_items :: "('a \<Rightarrow> error + 'b) \<Rightarrow> (string \<times> 'a) list \<Rightarrow> error + (string \<times> 'b) list" where
  "map_items f [] = Inr []"
| "map_items f ((k, v) # kvs) =
     (case f v of Inl err \<Rightarrow> Inl err
      | Inr w \<Rightarrow> (case map_items f kvs of Inl err \<Rightarrow> Inl err | Inr r \<Rightarrow> Inr ((k, w) # r)))"

definition evaluate :: "expression \<Rightarrow> (string \<times> kwarg) list \<Rightarrow> error + data_array" where
  "evaluate e kwargs =
     (let intersection = set (map fst kwargs) \<inter> set (map fst (me_parameters e)) in
      if intersection \<noteq> {} then Inl (ValueError, AlreadyParameters intersection)
      else case map_items variable_array kwargs of
             Inl err \<Rightarrow> Inl err
           | Inr variables \<Rightarrow>
               (case map_items parameter_array (me_parameters e) of
                  Inl err \<Rightarrow> Inl err
                | Inr parameters \<Rightarrow> me_function e (variables @ parameters)))"

subsection \<open>Two lambdified bodies used as concrete inputs\<close>

text \<open>
  The expression \<^verbatim>\<open>x\<close> alone: \<^verbatim>\<open>sympy.lambdify\<close> compiles it to the identity on
  the argument bound to its one symbol.
\<close>

definition identity_expr :: "string \<Rightarrow> sympy_expr" where
  "identity_expr x =
     \<lparr>se_repr = x, se_free_symbols = [x],
      se_body = (\<lambda>args. case map_of args x of
                           Some v \<Rightarrow> Inr v
                         | None \<Rightarrow> Inl (TypeError, ''missing argument''))\<rparr>"

text \<open>
  The expression \<^verbatim>\<open>a*x\<close>.  The product of two arrays, on the operands the examples
  use: a zero-dimensional operand scales the other one; operands over the same
  dimensions are multiplied element by element and must have the same shape (xarray
  raises \<^verbatim>\<open>ValueError\<close> when an unlabelled dimension has two sizes); one-dimensional
  operands over different dimensions give the outer product.  The product with a
  dimensionless quantity keeps the other unit, and pint prints the product of two
  different units as \<^verbatim>\<open>u * w\<close>.
\<close>

definition multiply_units :: "pint_unit \<Rightarrow> pint_unit \<Rightarrow> pint_unit" where
  "multiply_units u w =
     (if u = ''dimensionless'' then w else if w = ''dimensionless'' then u
      else u @ '' * '' @ w)"

definition multiply :: "data_array \<Rightarrow> data_array \<Rightarrow> lib_error + data_array" where
  "multiply p v =
     (case (da_units p, da_units v) of
        (Some u, Some w) \<Rightarrow>
          (if da_shape p = [] then
             Inr (v\<lparr>da_data := map (\<lambda>y. hd (da_data p) * y) (da_data v),
                    da_units := Some (multiply_units u w)\<rparr>)
           else if da_shape v = [] then
             Inr (p\<lparr>da_data := map (\<lambda>y. y * hd (da_data v)) (da_data p),
                    da_units := Some (multiply_units u w)\<rparr>)
           else if da_dims p = da_dims v then
             (if da_shape p = da_shape v
              then Inr (v\<lparr>da_data := map (\<lambda>(x, y). x * y) (zip (da_data p) (da_data v)),
                         da_units := Some (multiply_units u w),
                         da_coords := da_coords p @ da_coords v\<rparr>)
              else Inl (ValueError, ''arguments without labels along a dimension have different sizes''))
           else if length (da_shape p) = 1 \<and> length (da_shape v) = 1 then
             Inr \<lparr>da_data = concat (map (\<lambda>x. map (\<lambda>y. x * y) (da_data v)) (da_data p)),
                  da_shape = da_shape p @ da_shape v,
                  da_units = Some (multiply_units u w),
                  da_dims = da_dims p @ da_dims v,
                  da_coords = da_coords p @ da_coords v,
                  da_attrs = []\<rparr>
           else Inl (ValueError, ''operands outside the examples''))
      | _ \<Rightarrow> Inl (TypeError, ''operands outside the examples''))"

definition product_expr :: "string \<Rightarrow> string \<Rightarrow> sympy_expr" where
  "product_expr a x =
     \<lparr>se_repr = a @ ''*'' @ x, se_free_symbols = [a, x],
      se_body = (\<lambda>args. case (map_of args a, map_of args x) of
          (Some p, Some v) \<Rightarrow> multiply p v
        | _ \<Rightarrow> Inl (TypeError, ''missing argument''))\<rparr>"

text \<open>The expression \<^verbatim>\<open>a*t\<close> with the parameter \<^verbatim>\<open>a = 2 meter\<close>.\<close>

definition example_expression :: expression where
  "example_expression =
     \<lparr>me_expression = product_expr ''a'' ''t'',
      me_parameters = [(''a'', ParamQuantity \<lparr>q_mag = [2], q_shape = [], q_units = ''meter''\<rparr>)]\<rparr>"

definition three_seconds :: kwarg where
  "three_seconds = KwValue (Quantity \<lparr>q_mag = [3], q_shape = [1], q_units = ''second''\<rparr>)"


section \<open>Time\<close>

text \<open>
  Modelled from the spec: the class \<^verbatim>\<open>weldx.time.Time\<close> is not among the sources.
  The spec has time as duration coordinates with "an optional absolute reference
  timestamp [that] anchors relative time deltas to wall-clock time".  A time is its
  deltas in nanoseconds (what \<^verbatim>\<open>as_timedelta_index\<close> and \<^verbatim>\<open>as_data_array\<close> hold)
  and its optional reference timestamp.  \<^verbatim>\<open>Time(time, time_ref)\<close> keeps the absolute
  instants and re-anchors them at \<^verbatim>\<open>time_ref\<close> when one is given.
\<close>

record time =
  t_deltas :: "int list"
  t_reference :: "int option"

definition Time :: "time \<Rightarrow> int option \<Rightarrow> time" where
  "Time t time_ref =
     (case time_ref of
        None \<Rightarrow> t
      | Some r \<Rightarrow>
          (case t_reference t of
             None \<Rightarrow> t\<lparr>t_reference := Some r\<rparr>
           | Some r0 \<Rightarrow> \<lparr>t_deltas = map (\<lambda>d. d + r0 - r) (t_deltas t), t_reference = Some r\<rparr>))"

text \<open>\<^verbatim>\<open>pd.Timedelta(0)\<close> as a time.\<close>

definition Timedelta_zero :: time where
  "Timedelta_zero = \<lparr>t_deltas = [0], t_reference = None\<rparr>"

text \<open>\<^verbatim>\<open>Q_([1, 2, ...], "second")\<close> as a time: whole seconds.\<close>

definition seconds :: "int list \<Rightarrow> time" where
  "seconds xs = \<lparr>t_deltas = map (\<lambda>x. x * 1000000000) xs, t_reference = None\<rparr>"

text \<open>
  Modelled from the spec: \<^verbatim>\<open>Time.as_quantity(unit)\<close> "convert[s] the requested time to
  a quantity in \<^verbatim>\<open>time_unit\<close>".  The table gives the nanoseconds of a unit and its
  canonical name.
\<close>

definition time_units :: "(string \<times> int \<times> string) list" where
  "time_units =
     [(''ns'', 1, ''nanosecond''), (''us'', 1000, ''microsecond''),
      (''ms'', 1000000, ''millisecond''), (''s'', 1000000000, ''second''),
      (''second'', 1000000000, ''second''), (''min'', 60000000000, ''minute''),
      (''h'', 3600000000000, ''hour'')]"

definition as_quantity :: "time \<Rightarrow> string \<Rightarrow> error + quantity" where
  "as_quantity t unit_name =
     (case map_of time_units unit_name of
        None \<Rightarrow> Inl (DimensionalityError, Library ''cannot convert to the requested unit'')
      | Some (n, canonical) \<Rightarrow>
          Inr \<lparr>q_mag = map (\<lambda>d. of_int d / of_int n) (t_deltas t),
               q_shape = [length (t_deltas t)], q_units = canonical\<rparr>)"

section \<open>Operations of the array library used by TimeSeries\<close>

text \<open>\<^verbatim>\<open>a.assign_coords({"time": ...})\<close>: the array must have a dimension \<^verbatim>\<open>time\<close> of
  the length of the coordinate.\<close>

definition assign_time :: "data_array \<Rightarrow> int list \<Rightarrow> error + data_array" where
  "assign_time a ds =
     (if axis_len (da_dims a) (da_shape a) ''time'' \<noteq> Some (length ds)
        then Inl (ValueError, Library ''conflicting sizes for dimension time'')
      else Inr (a\<lparr>da_coords :=
                  AList.update ''time'' \<lparr>c_dims = [''time''], c_data = Timedelta64 ds, c_attrs = []\<rparr>
                    (da_coords a)\<rparr>))"

text \<open>\<^verbatim>\<open>a.rename({old: new})\<close> on a dimension name.\<close>

definition rename_dim :: "data_array \<Rightarrow> string \<Rightarrow> string \<Rightarrow> error + data_array" where
  "rename_dim a old new =
     (if old \<notin> set (da_dims a)
        then Inl (ValueError, Library ''cannot rename: not a dimension of this array'')
      else Inr (a\<lparr>da_dims := map (\<lambda>d. if d = old then new else d) (da_dims a)\<rparr>))"

text \<open>
  Moving axis \<open>k\<close> of a row-major array to the front: the new array lists, for each
  index \<open>i\<close> of that axis, the elements of the old array at that index.
\<close>

definition move_to_front :: "nat \<Rightarrow> nat list \<Rightarrow> 'a list \<Rightarrow> 'a list" where
  "move_to_front k sh xs =
     (case drop k sh of
        [] \<Rightarrow> xs
      | n # rest \<Rightarrow>
          (let outer = prod_list (take k sh); inner = prod_list rest in
           concat (map (\<lambda>i. concat (map (\<lambda>out. take inner (drop ((out * n + i) * inner) xs))
                                          [0..<outer]))
                       [0..<n])))"

text \<open>\<^verbatim>\<open>a.transpose("time", ...)\<close>.\<close>

definition transpose_time :: "data_array \<Rightarrow> error + data_array" where
  "transpose_time a =
     (if ''time'' \<notin> set (da_dims a)
        then Inl (ValueError, Library ''time must be a dimension of the array'')
      else
        (let k = length (takeWhile (\<lambda>d. d \<noteq> ''time'') (da_dims a)) in
         Inr (a\<lparr>da_data := move_to_front k (da_shape a) (da_data a),
                da_shape := take 1 (drop k (da_shape a)) @ take k (da_shape a) @ drop (Suc k) (da_shape a),
                da_dims := ''time'' # take k (da_dims a) @ drop (Suc k) (da_dims a)\<rparr>)))"

text \<open>\<^verbatim>\<open>a.data\<close> when it is a \<^verbatim>\<open>pint.Quantity\<close>.\<close>

definition array_quantity :: "data_array \<Rightarrow> quantity option" where
  "array_quantity a =
     (case da_units a of
        None \<Rightarrow> None
      | Some u \<Rightarrow> Some \<lparr>q_mag = da_data a, q_shape = da_shape a, q_units = u\<rparr>)"

text \<open>
  The interpolation routines of the array library, for everything the spec leaves to
  "library defaults": the array, the target coordinates by dimension, the method.
\<close>

type_synonym interp_lib =
  "data_array \<Rightarrow> (string \<times> coord_data) list \<Rightarrow> string option \<Rightarrow> lib_error + data_array"

text \<open>
  The sample "at or before the query point" with the latest time; none when every
  sample is later.
\<close>

definition last_at_or_before :: "int list \<Rightarrow> int \<Rightarrow> nat option" where
  "last_at_or_before ts q =
     (case filter (\<lambda>i. ts ! i \<le> q) [0..<length ts] of
        [] \<Rightarrow> None
      | i # is \<Rightarrow> Some (fold (\<lambda>j best. if ts ! best \<le> ts ! j then j else best) is i))"

text \<open>The sub-array at index \<open>i\<close> of the first axis.\<close>

definition slice :: "data_array \<Rightarrow> nat \<Rightarrow> rat list" where
  "slice a i = (let m = prod_list (tl (da_shape a)) in take m (drop (i * m) (da_data a)))"

definition step_interp :: "data_array \<Rightarrow> int list \<Rightarrow> data_array option" where
  "step_interp a qs =
     (case map_of (da_coords a) ''time'' of
        None \<Rightarrow> None
      | Some c \<Rightarrow>
          (case c_data c of
             Numeric vs \<Rightarrow> None
           | Timedelta64 ts \<Rightarrow>
               (case those (map (last_at_or_before ts) qs) of
                  None \<Rightarrow> None
                | Some idx \<Rightarrow>
                    Some (a\<lparr>da_data := concat (map (slice a) idx),
                            da_shape := length qs # tl (da_shape a),
                            da_coords := AList.update ''time''
                               \<lparr>c_dims = [''time''], c_data = Timedelta64 qs, c_attrs = c_attrs c\<rparr>
                               (da_coords a)\<rparr>))))"

text \<open>
  Modelled from the spec: \<^verbatim>\<open>weldx.util.xr_interp_like\<close> is not among the sources.
  The spec has it "interpolate the array onto the requested time coordinates using the
  stored interpolation mode", with \<^verbatim>\<open>step\<close> returning "the last value at or before
  the query point"; what happens to points that no sample precedes, and every other
  mode, is "delegated to the array library" (the parameter \<open>lib\<close>).
\<close>

definition xr_interp_like ::
  "interp_lib \<Rightarrow> data_array \<Rightarrow> (string \<times> coord_data) list \<Rightarrow> string option \<Rightarrow> error + data_array" where
  "xr_interp_like lib a target method =
     (case (if method = Some ''step'' \<and> take 1 (da_dims a) = [''time'']
            then (case target of
                    [(d, Timedelta64 qs)] \<Rightarrow> (if d = ''time'' then step_interp a qs else None)
                  | _ \<Rightarrow> None)
            else None) of
        Some r \<Rightarrow> Inr r
      | None \<Rightarrow> from_library (lib a target method))"

section \<open>TimeSeries\<close>

datatype ts_payload = Discrete data_array | Expression expression

record time_series =
  ts_data :: ts_payload
  ts_time_var_name :: "string option"
  ts_shape :: "nat list option"
  ts_units :: "pint_unit option"
  ts_interp_counter :: int
  ts_reference_time :: "int option"

text \<open>What \<^verbatim>\<open>TimeSeries(data, ...)\<close> is given as \<^verbatim>\<open>data\<close>.\<close>

datatype ts_input =
  InQuantity quantity | InDataArray data_array | InExpression expression | InUnsupported

text \<open>A warning emitted with \<^verbatim>\<open>warn\<close>: "The data of the time series has already been
  interpolated n time(s)."\<close>

datatype warning = AlreadyInterpolated int

definition valid_interpolations :: "string list" where
  "valid_interpolations =
     [''step'', ''linear'', ''nearest'', ''zero'', ''slinear'', ''quadratic'', ''cubic'']"

text \<open>
  \<^verbatim>\<open>_check_data_array\<close>.  Modelled from the spec: \<^verbatim>\<open>weldx.util.xr_check_coords\<close> is
  not among the sources; the array is "validated to have a time dimension backed by
  duration-typed coordinates".
\<close>

definition check_data_array :: "data_array \<Rightarrow> error + data_array" where
  "check_data_array a =
     (case map_of (da_coords a) ''time'' of
        None \<Rightarrow> Inl (KeyError, PatternMismatch)
      | Some c \<Rightarrow>
          (case c_data c of
             Numeric vs \<Rightarrow> Inl (TypeError, PatternMismatch)
           | Timedelta64 ds \<Rightarrow>
               if da_units a = None then Inl (TypeError, DataNotQuantity) else Inr a))"

definition create_data_array :: "quantity \<Rightarrow> time \<Rightarrow> error + data_array" where
  "create_data_array data t =
     (case DataArray_of_quantity data None of
        Inl err \<Rightarrow> Inl err
      | Inr a \<Rightarrow>
          (case rename_dim a ''dim_0'' ''time'' of
             Inl err \<Rightarrow> Inl err
           | Inr a' \<Rightarrow> assign_time a' (t_deltas t)))"

text \<open>The property \<^verbatim>\<open>time\<close>: \<^verbatim>\<open>None\<close> unless the data is an array with more than one
  time coordinate.\<close>

definition ts_time :: "time_series \<Rightarrow> error + time option" where
  "ts_time ts =
     (case ts_data ts of
        Expression e \<Rightarrow> Inr None
      | Discrete a \<Rightarrow>
          (case map_of (da_coords a) ''time'' of
             None \<Rightarrow> Inl (AttributeError, Library ''DataArray object has no attribute time'')
           | Some c \<Rightarrow>
               (if coord_len (c_data c) > 1
                then (case c_data c of
                        Timedelta64 ds \<Rightarrow>
                          Inr (Some (Time \<lparr>t_deltas = ds, t_reference = None\<rparr> (ts_reference_time ts)))
                      | Numeric vs \<Rightarrow> Inl (TypeError, Library ''not a time''))
                else Inr None)))"

text \<open>The property \<^verbatim>\<open>interpolation\<close> and its setter.\<close>

definition ts_interpolation :: "time_series \<Rightarrow> error + string option" where
  "ts_interpolation ts =
     (case ts_data ts of
        Expression e \<Rightarrow> Inr None
      | Discrete a \<Rightarrow>
          (case map_of (da_attrs a) ''interpolation'' of
             None \<Rightarrow> Inl (KeyError, MissingKey ''interpolation'')
           | Some i \<Rightarrow> Inr (Some i)))"

definition set_interpolation :: "time_series \<Rightarrow> string \<Rightarrow> error + time_series" where
  "set_interpolation ts interpolation =
     (case ts_data ts of
        Expression e \<Rightarrow> Inr ts
      | Discrete a \<Rightarrow>
          if interpolation \<notin> set valid_interpolations
            then Inl (ValueError, InvalidInterpolation interpolation)
          else
            (case ts_time ts of
               Inl err \<Rightarrow> Inl err
             | Inr t \<Rightarrow>
                 (let interpolation =
                        (if t = None \<and> interpolation \<noteq> ''step'' then ''step'' else interpolation)
                  in Inr (ts\<lparr>ts_data :=
                        Discrete (a\<lparr>da_attrs := AList.update ''interpolation'' interpolation (da_attrs a)\<rparr>)\<rparr>))))"

text \<open>The fields \<^verbatim>\<open>__init__\<close> sets before it dispatches on the type of \<^verbatim>\<open>data\<close>.\<close>

definition fresh_series :: "ts_payload \<Rightarrow> int option \<Rightarrow> time_series" where
  "fresh_series d reference_time =
     \<lparr>ts_data = d, ts_time_var_name = None, ts_shape = None, ts_units = None,
      ts_interp_counter = 0, ts_reference_time = reference_time\<rparr>"

text \<open>\<^verbatim>\<open>_initialize_discrete\<close>, for a \<^verbatim>\<open>DataArray\<close> and for a quantity.\<close>

definition initialize_discrete_array ::
  "data_array \<Rightarrow> string option \<Rightarrow> int option \<Rightarrow> error + time_series" where
  "initialize_discrete_array data interpolation reference_time =
     (let interpolation = (case interpolation of None \<Rightarrow> ''step'' | Some i \<Rightarrow> i) in
      case check_data_array data of
        Inl err \<Rightarrow> Inl err
      | Inr a \<Rightarrow>
          (case transpose_time a of
             Inl err \<Rightarrow> Inl err
           | Inr a' \<Rightarrow> set_interpolation (fresh_series (Discrete a') reference_time) interpolation))"

definition initialize_discrete_quantity ::
  "quantity \<Rightarrow> time option \<Rightarrow> string option \<Rightarrow> error + time_series" where
  "initialize_discrete_quantity data t interpolation =
     (let interpolation = (case interpolation of None \<Rightarrow> ''step'' | Some i \<Rightarrow> i);
          data = expand_scalar data;
          t = Time (case t of None \<Rightarrow> Timedelta_zero | Some t' \<Rightarrow> t') None
      in case create_data_array data t of
           Inl err \<Rightarrow> Inl err
         | Inr a \<Rightarrow> set_interpolation (fresh_series (Discrete a) (t_reference t)) interpolation)"

text \<open>
  \<^verbatim>\<open>TimeSeries(data, time, interpolation, reference_time)\<close> for every \<^verbatim>\<open>data\<close> but an
  expression: the calls \<^verbatim>\<open>interp_time\<close> makes.
\<close>

definition TimeSeries_values ::
  "ts_input \<Rightarrow> time option \<Rightarrow> string option \<Rightarrow> int option \<Rightarrow> error + time_series" where
  "TimeSeries_values data t interpolation reference_time =
     (case data of
        InQuantity q \<Rightarrow> initialize_discrete_quantity q t interpolation
      | InDataArray a \<Rightarrow> initialize_discrete_array a interpolation reference_time
      | _ \<Rightarrow> Inl (TypeError, UnsupportedType))"

text \<open>\<^verbatim>\<open>dax.data\<close> as the \<^verbatim>\<open>data\<close> of a constructor call.\<close>

definition data_of :: "data_array \<Rightarrow> ts_input" where
  "data_of a = (case array_quantity a of None \<Rightarrow> InUnsupported | Some q \<Rightarrow> InQuantity q)"

definition interp_time_discrete ::
  "interp_lib \<Rightarrow> data_array \<Rightarrow> string option \<Rightarrow> time \<Rightarrow> error + data_array" where
  "interp_time_discrete lib a method t =
     xr_interp_like lib a [(''time'', Timedelta64 (t_deltas t))] method"

definition interp_time_expression ::
  "expression \<Rightarrow> string option \<Rightarrow> time \<Rightarrow> string \<Rightarrow> error + data_array" where
  "interp_time_expression e time_var_name t time_unit =
     (case as_quantity t time_unit of
        Inl err \<Rightarrow> Inl err
      | Inr time_q \<Rightarrow>
          (case DataArray_of_quantity (expand_scalar time_q) (Some (DimList [''time''])) of
             Inl err \<Rightarrow> Inl err
           | Inr time_xr \<Rightarrow>
               (case time_var_name of
                  None \<Rightarrow> Inl (TypeError, Library ''keywords must be strings'')
                | Some v \<Rightarrow>
                    (case evaluate e [(v, KwArray time_xr)] of
                       Inl err \<Rightarrow> Inl err
                     | Inr data \<Rightarrow> assign_time data (t_deltas t)))))"

text \<open>
  \<^verbatim>\<open>interp_time\<close>: the warnings it emits, and the exception it raises or the new series
  it returns.  The source assigns nothing to \<^verbatim>\<open>self\<close>.
\<close>

definition interp_time ::
  "interp_lib \<Rightarrow> time_series \<Rightarrow> time \<Rightarrow> string \<Rightarrow> warning list \<times> (error + time_series)" where
  "interp_time lib self t time_unit =
     (let warnings = (if ts_interp_counter self > 0
                      then [AlreadyInterpolated (ts_interp_counter self)] else []);
          t = Time t None;
          time_interp = Time t (ts_reference_time self);
          made =
            (case ts_interpolation self of
               Inl err \<Rightarrow> Inl err
             | Inr interpolation \<Rightarrow>
                 (case ts_data self of
                    Discrete a \<Rightarrow>
                      (case interp_time_discrete lib a interpolation time_interp of
                         Inl err \<Rightarrow> Inl err
                       | Inr dax \<Rightarrow> TimeSeries_values (data_of dax) (Some t) interpolation None)
                  | Expression e \<Rightarrow>
                      (case interp_time_expression e (ts_time_var_name self) time_interp time_unit of
                         Inl err \<Rightarrow> Inl err
                       | Inr dax \<Rightarrow> TimeSeries_values (InDataArray dax) None interpolation None)))
      in (warnings,
          case made of
            Inl err \<Rightarrow> Inl err
          | Inr ts \<Rightarrow> Inr (ts\<lparr>ts_interp_counter := ts_interp_counter self + 1\<rparr>)))"

text \<open>\<^verbatim>\<open>_init_expression\<close>.\<close>

definition probe_shape :: "data_array \<Rightarrow> nat list" where
  "probe_shape a = (if da_shape a = [] then [1] else da_shape a)"

text \<open>The object once \<^verbatim>\<open>_units\<close>, \<^verbatim>\<open>_shape\<close>, \<^verbatim>\<open>_data\<close> and \<^verbatim>\<open>_time_var_name\<close> are
  assigned, as the two calls of \<^verbatim>\<open>interp_time\<close> see it.\<close>

definition probed_series ::
  "expression \<Rightarrow> int option \<Rightarrow> string \<Rightarrow> data_array \<Rightarrow> pint_unit \<Rightarrow> time_series" where
  "probed_series data reference_time time_var_name eval_data u =
     (fresh_series (Expression data) reference_time)
       \<lparr>ts_units := Some u, ts_shape := Some (probe_shape eval_data),
        ts_time_var_name := Some time_var_name\<rparr>"

text \<open>The probe value \<^verbatim>\<open>Q_(1, "second")\<close>.\<close>

definition one_second :: kwarg where
  "one_second = KwValue (Quantity \<lparr>q_mag = [1], q_shape = [], q_units = ''second''\<rparr>)"

definition init_expression ::
  "interp_lib \<Rightarrow> expression \<Rightarrow> int option \<Rightarrow> error + time_series" where
  "init_expression lib data reference_time =
     (if num_variables data \<noteq> 1 then Inl (PlainException, OneFreeVariable)
      else
        (case get_variable_names data of
           [] \<Rightarrow> Inl (IndexError, Library ''list index out of range'')
         | time_var_name # others \<Rightarrow>
             (case evaluate data [(time_var_name, one_second)] of
                Inl (c, m) \<Rightarrow>
                  (if c = DimensionalityError then Inl (PlainException, CheckParameterUnits)
                   else Inl (c, m))
              | Inr eval_data \<Rightarrow>
                  (case da_units eval_data of
                     None \<Rightarrow> Inl (AttributeError, Library ''the result has no attribute units'')
                   | Some u \<Rightarrow>
                       (let self = probed_series data reference_time time_var_name eval_data u
                        in case snd (interp_time lib self (seconds [1, 2]) ''s'') of
                             Inl (c, m) \<Rightarrow> Inl (PlainException, TimeDeltaArrays m)
                           | Inr first \<Rightarrow>
                               (case snd (interp_time lib self (seconds [1, 2, 3]) ''s'') of
                                  Inl (c, m) \<Rightarrow> Inl (PlainException, TimeDeltaArrays m)
                                | Inr second \<Rightarrow> Inr self))))))"

text \<open>\<^verbatim>\<open>TimeSeries.__init__\<close>.\<close>

definition TimeSeries ::
  "interp_lib \<Rightarrow> ts_input \<Rightarrow> time option \<Rightarrow> string option \<Rightarrow> int option \<Rightarrow> error + time_series" where
  "TimeSeries lib data t interpolation reference_time =
     (case data of
        InExpression e \<Rightarrow> init_expression lib e reference_time
      | _ \<Rightarrow> TimeSeries_values data t interpolation reference_time)"

text \<open>
  \<^verbatim>\<open>MathematicalExpression.__eq__\<close>: structural equality of the formulas and deep
  equality of the bound parameters.
\<close>

definition expression_eq :: "expression \<Rightarrow> expression \<Rightarrow> bool" where
  "expression_eq e other =
     (se_repr (me_expression e) = se_repr (me_expression other)
      \<and> set (me_parameters e) = set (me_parameters other))"

text \<open>\<^verbatim>\<open>DataArray.identical\<close>: the same values, units, dimensions, coordinates and
  attributes.\<close>

definition identical :: "data_array \<Rightarrow> data_array \<Rightarrow> bool" where
  "identical a b = (a = b)"

text \<open>\<^verbatim>\<open>TimeSeries.__eq__\<close> against another \<^verbatim>\<open>TimeSeries\<close>.\<close>

definition ts_eq :: "time_series \<Rightarrow> time_series \<Rightarrow> bool" where
  "ts_eq self other =
     (case ts_data self of
        Discrete a \<Rightarrow>
          (case ts_data other of
             Discrete b \<Rightarrow> (if da_units b = None then False else identical a b)
           | Expression e \<Rightarrow> False)
      | Expression e \<Rightarrow>
          (case ts_data other of
             Discrete b \<Rightarrow> False
           | Expression e' \<Rightarrow> expression_eq e e'))"


subsection \<open>Series with one time point\<close>

text \<open>The array has a time coordinate with exactly one value.\<close>

definition single_time_point :: "data_array \<Rightarrow> bool" where
  "single_time_point a =
     (case map_of (da_coords a) ''time'' of
        None \<Rightarrow> False
      | Some c \<Rightarrow> coord_len (c_data c) = 1)"

subsection \<open>A discrete series used as a concrete input\<close>

text \<open>
  The values \<^verbatim>\<open>[0, 1, 2, 3]\<close> (in meters) at the times \<^verbatim>\<open>[0, 1, 2, 3]\<close> seconds, and
  an array library none of whose own routines is reached.
\<close>

definition example_values :: quantity where
  "example_values = \<lparr>q_mag = [0, 1, 2, 3], q_shape = [4], q_units = ''meter''\<rparr>"

definition unused_lib :: interp_lib where
  "unused_lib a target method = Inl (ValueError, ''not reached'')"

definition example_array :: "string \<Rightarrow> data_array" where
  "example_array interpolation =
     \<lparr>da_data = [0, 1, 2, 3], da_shape = [4], da_units = Some ''meter'', da_dims = [''time''],
      da_coords = [(''time'', \<lparr>c_dims = [''time''],
                               c_data = Timedelta64 [0, 1000000000, 2000000000, 3000000000],
                               c_attrs = []\<rparr>)],
      da_attrs = [(''interpolation'', interpolation)]\<rparr>"

definition example_series :: "string \<Rightarrow> time_series" where
  "example_series interpolation = fresh_series (Discrete (example_array interpolation)) None"

text \<open>The single value \<open>v\<close> meters at the time \<open>d\<close> nanoseconds.\<close>

definition single_array :: "rat \<Rightarrow> int \<Rightarrow> data_array" where
  "single_array v d =
     \<lparr>da_data = [v], da_shape = [1], da_units = Some ''meter'', da_dims = [''time''],
      da_coords = [(''time'', \<lparr>c_dims = [''time''], c_data = Timedelta64 [d], c_attrs = []\<rparr>)],
      da_attrs = [(''interpolation'', ''step'')]\<rparr>"

text \<open>The series the constructor returns for the expression \<^verbatim>\<open>a*t\<close> with
  \<^verbatim>\<open>a = 2 meter\<close>.\<close>

definition example_expression_series :: time_series where
  "example_expression_series =
     \<lparr>ts_data = Expression example_expression, ts_time_var_name = Some ''t'',
      ts_shape = Some [1], ts_units = Some ''meter * second'', ts_interp_counter = 0,
      ts_reference_time = None\<rparr>"

text \<open>The values \<open>vs\<close> in the unit \<open>u\<close> at the times \<open>ds\<close>, with step interpolation.\<close>

definition sampled_array :: "rat list \<Rightarrow> pint_unit \<Rightarrow> int list \<Rightarrow> data_array" where
  "sampled_array vs u ds =
     \<lparr>da_data = vs, da_shape = [length vs], da_units = Some u, da_dims = [''time''],
      da_coords = [(''time'', \<lparr>c_dims = [''time''], c_data = Timedelta64 ds, c_attrs = []\<rparr>)],
      da_attrs = [(''interpolation'', ''step'')]\<rparr>"

text \<open>
  The expression \<^verbatim>\<open>a*t\<close> with \<open>a\<close> bound to an array of two values over the dimension
  \<^verbatim>\<open>time\<close>: a parameter that shares its dimension with the time variable and has no
  broadcastable outer dimension of size 1.
\<close>

definition aliased_expression :: expression where
  "aliased_expression =
     \<lparr>me_expression = product_expr ''a'' ''t'',
      me_parameters =
        [(''a'', ParamArray \<lparr>da_data = [1, 2], da_shape = [2], da_units = Some ''meter'',
                             da_dims = [''time''], da_coords = [], da_attrs = []\<rparr>)]\<rparr>"

text \<open>
  The array \<^verbatim>\<open>_create_data_array\<close> and the interpolation setter leave for the data
  \<open>q\<close> at the single time \<open>d\<close>: the first axis is \<^verbatim>\<open>time\<close>, the mode is \<^verbatim>\<open>step\<close>.
\<close>

definition point_array :: "quantity \<Rightarrow> int \<Rightarrow> data_array" where
  "point_array q d =
     \<lparr>da_data = q_mag q, da_shape = q_shape q, da_units = Some (q_units q),
      da_dims = map (\<lambda>x. if x = ''dim_0'' then ''time'' else x) (default_dims (length (q_shape q))),
      da_coords = [(''time'', \<lparr>c_dims = [''time''], c_data = Timedelta64 [d], c_attrs = []\<rparr>)],
      da_attrs = [(''interpolation'', ''step'')]\<rparr>"

text \<open>
  An array library that interpolates a one-dimensional series linearly between the two
  samples around each requested time, and fails outside the sampled range.
\<close>

fun linear_at :: "(int \<times> rat) list \<Rightarrow> int \<Rightarrow> rat option" where
  "linear_at ((t0, v0) # (t1, v1) # rest) q =
     (if t0 \<le> q \<and> q \<le> t1 \<and> t0 < t1
      then Some (v0 + (v1 - v0) * of_int (q - t0) / of_int (t1 - t0))
      else linear_at ((t1, v1) # rest) q)"
| "linear_at samples q = None"

definition linear_lib :: interp_lib where
  "linear_lib a target method =
     (case (da_shape a, map_of (da_coords a) ''time'', target) of
        ([n], Some c, [(d, Timedelta64 qs)]) \<Rightarrow>
          (case c_data c of
             Timedelta64 ts \<Rightarrow>
               (case those (map (linear_at (zip ts (da_data a))) qs) of
                  Some vs \<Rightarrow>
                    Inr (a\<lparr>da_data := vs, da_shape := [length qs],
                           da_coords := [(''time'', c\<lparr>c_data := Timedelta64 qs\<rparr>)]\<rparr>)
                | None \<Rightarrow> Inl (ValueError, ''outside the sampled range''))
           | Numeric vs \<Rightarrow> Inl (TypeError, ''not a time coordinate''))
      | _ \<Rightarrow> Inl (ValueError, ''outside the example''))"


subsection \<open>Objects\<close>

text \<open>
  \<^verbatim>\<open>TimeSeries\<close> objects live in a store and are named by their position in it; a
  constructor call appends the new object.  \<^verbatim>\<open>interp_time\<close> called on the object
  \<open>self\<close> returns the store afterwards, the warnings emitted, and the exception or the
  reference of the series it returns.  The only assignment of the method,
  \<^verbatim>\<open>ts._interp_counter = self._interp_counter + 1\<close>, is to the new object.
\<close>

type_synonym store = "time_series list"

definition interp_time_method ::
  "interp_lib \<Rightarrow> store \<Rightarrow> nat \<Rightarrow> time \<Rightarrow> string \<Rightarrow> store \<times> warning list \<times> (error + nat)" where
  "interp_time_method lib h self t time_unit =
     (if length h \<le> self then (h, [], Inl (AttributeError, Library ''no such object''))
      else
        (case interp_time lib (h ! self) t time_unit of
           (warnings, Inl err) \<Rightarrow> (h, warnings, Inl err)
         | (warnings, Inr ts) \<Rightarrow> (h @ [ts], warnings, Inr (length h))))"


section \<open>GenericSeries\<close>

text \<open>
  The base class \<^verbatim>\<open>GenericSeries\<close>: it declares no constraint
  (\<^verbatim>\<open>_check_constraints_discrete\<close> and \<^verbatim>\<open>_check_constraints_expression\<close> return at
  once when \<^verbatim>\<open>cls is GenericSeries\<close>) and no \<^verbatim>\<open>_evaluation_preprocessor\<close>.
\<close>

datatype gs_payload = GsDiscrete data_array | GsExpression expression

record generic_series =
  gs_data :: gs_payload
  gs_variable_units :: "(string \<times> pint_unit) list option"
  gs_symbol_dims :: "(string \<times> dimspec) list option"
  gs_shape :: "nat list option"
  gs_units :: "pint_unit option"
  gs_interpolation :: string

text \<open>What \<^verbatim>\<open>GenericSeries(data, ...)\<close> is given as \<^verbatim>\<open>data\<close>: a quantity, a
  \<^verbatim>\<open>DataArray\<close>, an expression, or a formula as a string (here already parsed).\<close>

datatype gs_input =
    GsQuantity quantity | GsDataArray data_array | GsExpr expression | GsFormula sympy_expr
  | GsUnsupported

text \<open>The pint routines \<^verbatim>\<open>GenericSeries\<close> relies on: \<^verbatim>\<open>Quantity.to(unit)\<close> and the unit
  of \<^verbatim>\<open>Quantity.to_reduced_units()\<close>.\<close>

record pint_lib =
  to_unit :: "quantity \<Rightarrow> pint_unit \<Rightarrow> lib_error + quantity"
  reduced_units :: "pint_unit \<Rightarrow> pint_unit"

definition fresh_generic :: "gs_payload \<Rightarrow> generic_series" where
  "fresh_generic d =
     \<lparr>gs_data = d, gs_variable_units = None, gs_symbol_dims = None, gs_shape = None,
      gs_units = None, gs_interpolation = ''linear''\<rparr>"

text \<open>\<^verbatim>\<open>xr.DataArray(Q_(v), dims=[k]).pint.dequantify()\<close>: a coordinate with its unit in
  the attribute \<^verbatim>\<open>units\<close>.\<close>

definition dequantified ::
  "quantity \<Rightarrow> string \<Rightarrow> error + (string \<times> coord_data \<times> (string \<times> string) list)" where
  "dequantified q k =
     (case DataArray_of_quantity q (Some (DimList [k])) of
        Inl err \<Rightarrow> Inl err
      | Inr a \<Rightarrow> Inr (k, Numeric (da_data a), [(''units'', q_units q)]))"

fun dequantify_all ::
  "(string \<times> quantity_like) list \<Rightarrow> error + (string \<times> coord_data \<times> (string \<times> string) list) list" where
  "dequantify_all [] = Inr []"
| "dequantify_all ((k, v) # kvs) =
     (case dequantified (Qty v) k of
        Inl err \<Rightarrow> Inl err
      | Inr c \<Rightarrow> (case dequantify_all kvs of Inl err \<Rightarrow> Inl err | Inr cs \<Rightarrow> Inr (c # cs)))"

text \<open>\<^verbatim>\<open>_init_discrete\<close>.\<close>

definition init_discrete ::
  "gs_input \<Rightarrow> string list option \<Rightarrow> (string \<times> quantity_like) list option \<Rightarrow> error + generic_series" where
  "init_discrete data dims coords =
     (case data of
        GsDataArray a \<Rightarrow> Inr (fresh_generic (GsDiscrete a))
      | GsQuantity q \<Rightarrow>
          (case (case coords of None \<Rightarrow> Inr [] | Some cs \<Rightarrow> dequantify_all cs) of
             Inl err \<Rightarrow> Inl err
           | Inr cs \<Rightarrow>
               (case DataArray_new (q_mag q) (q_shape q) (Some (q_units q))
                       (case dims of None \<Rightarrow> None | Some ds \<Rightarrow> Some (DimList ds)) cs of
                  Inl err \<Rightarrow> Inl err
                | Inr a \<Rightarrow> Inr (fresh_generic (GsDiscrete a))))
      | _ \<Rightarrow> Inl (TypeError, UnsupportedType))"

text \<open>\<^verbatim>\<open>_update_expression_params\<close>.\<close>

fun update_expression_params :: "(string \<times> param_in) list \<Rightarrow> error + (string \<times> param_in) list" where
  "update_expression_params [] = Inr []"
| "update_expression_params ((k, v) # ps) =
     (case (case v of
              InTuple x d \<Rightarrow> Inr (InTuple (Quantity (Qty x)) d)
            | InArray a \<Rightarrow>
                (if da_units a = None then Inl (ValueError, NotAQuantity k) else Inr (InArray a))
            | InValue x \<Rightarrow> Inr (InValue (Quantity (Qty x)))) of
        Inl err \<Rightarrow> Inl err
      | Inr v' \<Rightarrow>
          (case update_expression_params ps of
             Inl err \<Rightarrow> Inl err
           | Inr ps' \<Rightarrow> Inr ((k, v') # ps')))"

text \<open>A stored parameter handed back to \<^verbatim>\<open>set_parameters\<close>.\<close>

fun as_param_in :: "param \<Rightarrow> param_in" where
  "as_param_in (ParamQuantity q) = InValue (Quantity q)"
| "as_param_in (ParamArray a) = InArray a"

text \<open>\<^verbatim>\<open>Q_(range(n), u)\<close>.\<close>

definition range_quantity :: "nat \<Rightarrow> pint_unit \<Rightarrow> quantity" where
  "range_quantity n u = \<lparr>q_mag = map of_nat [0..<n], q_shape = [n], q_units = u\<rparr>"

text \<open>The probe arrays of one pass of \<^verbatim>\<open>_eval_expr\<close>: variable number \<open>i\<close> gets
  \<open>i + 2 + offset\<close> values over its dimensions.\<close>

fun array_params ::
  "(string \<times> dimspec) list \<Rightarrow> nat \<Rightarrow> nat \<Rightarrow> (string \<times> pint_unit) list \<Rightarrow> error + (string \<times> kwarg) list" where
  "array_params dims offset i [] = Inr []"
| "array_params dims offset i ((k, u) # units) =
     (case map_of dims k of
        None \<Rightarrow> Inl (KeyError, MissingKey k)
      | Some d \<Rightarrow>
          (case DataArray_of_quantity (range_quantity (i + 2 + offset) u) (Some d) of
             Inl err \<Rightarrow> Inl err
           | Inr a \<Rightarrow>
               (case array_params dims offset (Suc i) units of
                  Inl err \<Rightarrow> Inl err
                | Inr r \<Rightarrow> Inr ((k, KwArray a) # r))))"

definition array_probe ::
  "expression \<Rightarrow> (string \<times> dimspec) list \<Rightarrow> (string \<times> pint_unit) list \<Rightarrow> nat \<Rightarrow> error + data_array" where
  "array_probe expr dims units offset =
     (case array_params dims offset 0 units of
        Inl err \<Rightarrow> Inl err
      | Inr ps \<Rightarrow> evaluate expr ps)"

text \<open>
  \<^verbatim>\<open>_eval_expr\<close>.  The first \<^verbatim>\<open>try\<close> leaves \<^verbatim>\<open>expr_units\<close> unassigned when it
  swallows a \<^verbatim>\<open>ValueError\<close>; the \<^verbatim>\<open>return\<close> then raises \<^verbatim>\<open>UnboundLocalError\<close>
  unless one of the two array passes has raised first.
\<close>

definition eval_expr ::
  "pint_lib \<Rightarrow> expression \<Rightarrow> (string \<times> dimspec) list \<Rightarrow> (string \<times> pint_unit) list
     \<Rightarrow> error + (pint_unit \<times> nat list option)" where
  "eval_expr pint expr dims units =
     (case (case evaluate expr
                   (map (\<lambda>(k, u). (k, KwValue (Quantity \<lparr>q_mag = [1], q_shape = [], q_units = u\<rparr>))) units) of
              Inl (c, m) \<Rightarrow>
                (if c = DimensionalityError then Inl (ValueError, UnitDimensionality m)
                 else if c = ValueError then Inr None
                 else Inl (c, m))
            | Inr result \<Rightarrow>
                (case da_units result of
                   None \<Rightarrow> Inl (AttributeError, Library ''the result has no attribute to_reduced_units'')
                 | Some u \<Rightarrow> Inr (Some (reduced_units pint u)))) of
        Inl err \<Rightarrow> Inl err
      | Inr expr_units \<Rightarrow>
          (case (case array_probe expr dims units 0 of
                   Inl err \<Rightarrow> Inl err
                 | Inr first \<Rightarrow> array_probe expr dims units 1) of
             Inl (c, m) \<Rightarrow>
               (if c = ValueError then Inl (ValueError, MismatchingArrayLengths m) else Inl (c, m))
           | Inr second \<Rightarrow>
               (case expr_units of
                  None \<Rightarrow> Inl (UnboundLocalError, Library ''expr_units referenced before assignment'')
                | Some u \<Rightarrow> Inr (u, None))))"

text \<open>The loops of \<^verbatim>\<open>_init_expression\<close> over the given units and over the variable
  names.\<close>

fun check_units :: "expression \<Rightarrow> (string \<times> pint_unit) list \<Rightarrow> error + (string \<times> pint_unit) list" where
  "check_units expr [] = Inr []"
| "check_units expr ((k, u) # us) =
     (if k \<notin> set (get_variable_names expr) then Inl (KeyError, NotAVariable k)
      else (case check_units expr us of Inl err \<Rightarrow> Inl err | Inr r \<Rightarrow> Inr ((k, u) # r)))"

fun default_entries :: "(string \<Rightarrow> 'a) \<Rightarrow> string list \<Rightarrow> (string \<times> 'a) list \<Rightarrow> (string \<times> 'a) list" where
  "default_entries f [] m = m"
| "default_entries f (v # vs) m =
     default_entries f vs (if v \<in> set (map fst m) then m else m @ [(v, f v)])"

definition gs_init_expression ::
  "pint_lib \<Rightarrow> gs_input \<Rightarrow> (string \<times> dimspec) list option \<Rightarrow> (string \<times> param_in) list option
     \<Rightarrow> (string \<times> pint_unit) list option \<Rightarrow> error + generic_series" where
  "gs_init_expression pint data dims parameters units =
     (let formula = (case data of GsExpr e \<Rightarrow> me_expression e | GsFormula f \<Rightarrow> f
                     | _ \<Rightarrow> \<lparr>se_repr = [], se_free_symbols = [], se_body = (\<lambda>args. Inl (TypeError, []))\<rparr>);
          parameters = (case data of GsExpr e \<Rightarrow> Some (map (\<lambda>(k, p). (k, as_param_in p)) (me_parameters e))
                        | _ \<Rightarrow> parameters)
      in case (case parameters of
                 None \<Rightarrow> Inr None
               | Some ps \<Rightarrow> (case update_expression_params ps of Inl err \<Rightarrow> Inl err | Inr ps' \<Rightarrow> Inr (Some ps'))) of
           Inl err \<Rightarrow> Inl err
         | Inr parameters' \<Rightarrow>
             (case MathematicalExpression formula parameters' of
                Inl err \<Rightarrow> Inl err
              | Inr expr \<Rightarrow>
                  if num_variables expr = 0 then Inl (ValueError, NoVariables)
                  else
                    (case (case units of None \<Rightarrow> Inr [] | Some us \<Rightarrow> check_units expr us) of
                       Inl err \<Rightarrow> Inl err
                     | Inr units' \<Rightarrow>
                         (let dims' = default_entries DimStr (get_variable_names expr)
                                        (case dims of None \<Rightarrow> [] | Some ds \<Rightarrow> ds);
                              units'' = default_entries (\<lambda>v. ''dimensionless'') (get_variable_names expr) units'
                          in case eval_expr pint expr dims' units'' of
                               Inl err \<Rightarrow> Inl err
                             | Inr (expr_units, expr_shape) \<Rightarrow>
                                 Inr \<lparr>gs_data = GsExpression expr, gs_variable_units = Some units'',
                                      gs_symbol_dims = Some dims', gs_shape = expr_shape,
                                      gs_units = Some expr_units, gs_interpolation = ''linear''\<rparr>))))"

text \<open>\<^verbatim>\<open>GenericSeries.__init__\<close>; \<^verbatim>\<open>dims\<close> is a list of names for discrete data and a
  dictionary for an expression.\<close>

definition GenericSeries ::
  "pint_lib \<Rightarrow> gs_input \<Rightarrow> string list option \<Rightarrow> (string \<times> dimspec) list option
     \<Rightarrow> (string \<times> quantity_like) list option \<Rightarrow> (string \<times> pint_unit) list option
     \<Rightarrow> (string \<times> param_in) list option \<Rightarrow> error + generic_series" where
  "GenericSeries pint data dims symbol_dims coords units parameters =
     (case data of
        GsQuantity q \<Rightarrow> init_discrete data dims coords
      | GsDataArray a \<Rightarrow> init_discrete data dims coords
      | GsExpr e \<Rightarrow> gs_init_expression pint data symbol_dims parameters units
      | GsFormula f \<Rightarrow> gs_init_expression pint data symbol_dims parameters units
      | GsUnsupported \<Rightarrow> Inl (TypeError, UnsupportedType))"

text \<open>\<^verbatim>\<open>_get_expression_dims\<close> and the property \<^verbatim>\<open>dims\<close>; the source builds a set and
  returns it as a list in the order of the set.\<close>

definition param_dims :: "param \<Rightarrow> string set" where
  "param_dims p =
     (case parameter_array p of
        Inl err \<Rightarrow> {}
      | Inr a \<Rightarrow> (if da_size a > 0 then set (da_dims a) else {}))"

definition get_expression_dims :: "expression \<Rightarrow> (string \<times> dimspec) list \<Rightarrow> string set" where
  "get_expression_dims expr symbol_dims =
     (\<Union>d \<in> set (map snd symbol_dims). dim_set d) \<union> (\<Union>p \<in> set (map snd (me_parameters expr)). param_dims p)"

definition gs_dims :: "generic_series \<Rightarrow> string set" where
  "gs_dims gs =
     (case gs_data gs of
        GsExpression e \<Rightarrow> get_expression_dims e (case gs_symbol_dims gs of None \<Rightarrow> [] | Some ds \<Rightarrow> ds)
      | GsDiscrete a \<Rightarrow> set (da_dims a))"


definition units_of :: "generic_series \<Rightarrow> error + pint_unit" where
  "units_of gs =
     (case gs_units gs of
        Some u \<Rightarrow> Inr u
      | None \<Rightarrow>
          (case gs_data gs of
             GsDiscrete a \<Rightarrow>
               (case da_units a of
                  None \<Rightarrow> Inl (AttributeError, Library ''the data has no attribute u'')
                | Some u \<Rightarrow> Inr u)
           | GsExpression e \<Rightarrow> Inl (AttributeError, Library ''the expression has no attribute data'')))"

text \<open>
  The first loop of \<^verbatim>\<open>__call__\<close>, for an expression: each value becomes an array over
  the dimensions of its symbol, with its magnitudes as the coordinate named by the first
  of these dimensions.
\<close>

definition expression_input ::
  "(string \<times> dimspec) list \<Rightarrow> string \<Rightarrow> quantity_like \<Rightarrow> error + data_array" where
  "expression_input symbol_dims k v =
     (let q = expand_scalar (Qty v) in
      case map_of symbol_dims k of
        None \<Rightarrow> Inl (KeyError, MissingKey k)
      | Some d \<Rightarrow>
          (case dim_first d of
             Inl err \<Rightarrow> Inl err
           | Inr c \<Rightarrow>
               (if length (q_shape q) \<noteq> 1
                then Inl (ValueError, Library ''cannot infer the dimensions of the coordinate'')
                else DataArray_new (q_mag q) (q_shape q) (Some (q_units q)) (Some d)
                       [(c, Numeric (q_mag q), [])])))"

text \<open>The first loop of \<^verbatim>\<open>__call__\<close>, for discrete data: each value is converted to the
  unit of the coordinate of its name and dequantified.\<close>

definition discrete_input ::
  "pint_lib \<Rightarrow> data_array \<Rightarrow> string \<Rightarrow> quantity_like \<Rightarrow> error + (string \<times> coord_data \<times> (string \<times> string) list)" where
  "discrete_input pint a k v =
     (let q = expand_scalar (Qty v) in
      case map_of (da_coords a) k of
        None \<Rightarrow> Inl (KeyError, MissingKey k)
      | Some c \<Rightarrow>
          (case map_of (c_attrs c) ''units'' of
             None \<Rightarrow> Inl (KeyError, MissingKey ''units'')
           | Some ref_unit \<Rightarrow>
               (case from_library (to_unit pint q ref_unit) of
                  Inl err \<Rightarrow> Inl err
                | Inr q' \<Rightarrow> dequantified q' k)))"

fun map_kwargs :: "(string \<Rightarrow> 'a \<Rightarrow> error + 'b) \<Rightarrow> (string \<times> 'a) list \<Rightarrow> error + (string \<times> 'b) list" where
  "map_kwargs f [] = Inr []"
| "map_kwargs f ((k, v) # kvs) =
     (case f k v of
        Inl err \<Rightarrow> Inl err
      | Inr w \<Rightarrow> (case map_kwargs f kvs of Inl err \<Rightarrow> Inl err | Inr r \<Rightarrow> Inr ((k, w) # r)))"

text \<open>The loop of the partial binding, on the copy \<^verbatim>\<open>new_series\<close>; the dimensions are
  read from \<^verbatim>\<open>self._symbol_dims\<close>.\<close>

fun bind_all ::
  "(string \<times> dimspec) list \<Rightarrow> generic_series \<Rightarrow> (string \<times> quantity_like) list \<Rightarrow> error + generic_series" where
  "bind_all self_dims new_series [] = Inr new_series"
| "bind_all self_dims new_series ((k, v) # kvs) =
     (case (gs_data new_series, gs_symbol_dims new_series, gs_variable_units new_series) of
        (GsExpression e, Some ds, Some us) \<Rightarrow>
          (case map_of self_dims k of
             None \<Rightarrow> Inl (KeyError, MissingKey k)
           | Some d \<Rightarrow>
               (case set_parameter e k (InTuple v d) of
                  Inl err \<Rightarrow> Inl err
                | Inr e' \<Rightarrow>
                    if k \<notin> set (map fst ds) then Inl (KeyError, MissingKey k)
                    else if k \<notin> set (map fst us) then Inl (KeyError, MissingKey k)
                    else bind_all self_dims
                           (new_series\<lparr>gs_data := GsExpression e',
                                        gs_symbol_dims := Some (AList.delete k ds),
                                        gs_variable_units := Some (AList.delete k us)\<rparr>) kvs))
      | _ \<Rightarrow> Inl (TypeError, Library ''not an expression''))"

text \<open>\<^verbatim>\<open>GenericSeries.__call__\<close>; the keyword arguments are a dictionary, so their names
  are distinct.\<close>

definition gs_call ::
  "pint_lib \<Rightarrow> interp_lib \<Rightarrow> generic_series \<Rightarrow> (string \<times> quantity_like) list \<Rightarrow> error + generic_series" where
  "gs_call pint lib self kwargs =
     (case gs_data self of
        GsExpression e \<Rightarrow>
          (case map_kwargs (expression_input (case gs_symbol_dims self of None \<Rightarrow> [] | Some ds \<Rightarrow> ds)) kwargs of
             Inl err \<Rightarrow> Inl err
           | Inr input \<Rightarrow>
               if int (length kwargs) = num_variables e
               then (case evaluate e (map (\<lambda>(k, a). (k, KwArray a)) input) of
                       Inl err \<Rightarrow> Inl err
                     | Inr data \<Rightarrow> init_discrete (GsDataArray data) None None)
               else bind_all (case gs_symbol_dims self of None \<Rightarrow> [] | Some ds \<Rightarrow> ds) self kwargs)
      | GsDiscrete a \<Rightarrow>
          (case map_kwargs (discrete_input pint a) kwargs of
             Inl err \<Rightarrow> Inl err
           | Inr input \<Rightarrow>
               (case filter (\<lambda>k. k \<notin> set (da_dims a)) (map fst input) of
                  k # ks \<Rightarrow> Inl (KeyError, NotAValidDimension k)
                | [] \<Rightarrow>
                    (case xr_interp_like lib a (map (\<lambda>(k, c). (k, fst (snd c))) input) None of
                       Inl err \<Rightarrow> Inl err
                     | Inr r \<Rightarrow> init_discrete (GsDataArray r) None None))))"

text \<open>
  An expression-backed series as \<^verbatim>\<open>_init_expression\<close> leaves it: the expected units
  are kept for exactly the free variables, one entry each; every free variable has an
  entry in the dimension map; the parameters of the expression are among its symbols.
\<close>

definition expression_series ::
  "generic_series \<Rightarrow> expression \<Rightarrow> (string \<times> dimspec) list \<Rightarrow> (string \<times> pint_unit) list \<Rightarrow> bool" where
  "expression_series gs e ds us =
     (gs_data gs = GsExpression e \<and> gs_symbol_dims gs = Some ds \<and> gs_variable_units gs = Some us
      \<and> distinct (map fst us) \<and> distinct (map fst ds)
      \<and> set (map fst us) = set (get_variable_names e)
      \<and> set (map fst us) \<subseteq> set (map fst ds)
      \<and> set (map fst (me_parameters e)) \<subseteq> set (se_free_symbols (me_expression e))
      \<and> int (length us) = num_variables e)"

text \<open>Such a series together with the output unit \<open>pu\<close> that \<^verbatim>\<open>_eval_expr\<close> has
  determined for it and \<^verbatim>\<open>_init_expression\<close> has stored in \<^verbatim>\<open>_units\<close>.\<close>

definition probed_generic ::
  "pint_lib \<Rightarrow> generic_series \<Rightarrow> expression \<Rightarrow> (string \<times> dimspec) list \<Rightarrow> (string \<times> pint_unit) list
     \<Rightarrow> pint_unit \<Rightarrow> bool" where
  "probed_generic pint gs e ds us pu =
     (expression_series gs e ds us \<and> gs_units gs = Some pu
      \<and> eval_expr pint e ds us = Inr (pu, None))"

text \<open>
  A dimension specification that \<^verbatim>\<open>__call__\<close> can use both as \<^verbatim>\<open>dims\<close> and, through
  its item \<^verbatim>\<open>[0]\<close>, as the name of the coordinate: it names one dimension, and this
  name is its first item (a string of one character, or a list of one name).
\<close>

definition single_name :: "dimspec \<Rightarrow> bool" where
  "single_name d = (case dim_first d of Inl err \<Rightarrow> False | Inr c \<Rightarrow> dim_names d = [c])"

text \<open>The value \<open>q\<close> is a one-dimensional array (its shape is its number of values),
  and the symbol \<open>k\<close> has such a dimension specification.\<close>

definition array_over :: "(string \<times> dimspec) list \<Rightarrow> string \<Rightarrow> quantity \<Rightarrow> bool" where
  "array_over ds k q =
     (case map_of ds k of
        None \<Rightarrow> False
      | Some d \<Rightarrow> single_name d \<and> q_shape q = [length (q_mag q)])"



text \<open>The parameter \<open>kp\<close> is what the partial binding stores for the keyword argument
  \<open>kv\<close>: the array of the value over the dimensions of its symbol.\<close>

definition bound_by ::
  "(string \<times> dimspec) list \<Rightarrow> (string \<times> param) \<Rightarrow> (string \<times> quantity_like) \<Rightarrow> bool" where
  "bound_by sd kp kv =
     (fst kp = fst kv
      \<and> (\<exists>d a. map_of sd (fst kv) = Some d \<and> DataArray_of_value (snd kv) (Some d) = Inr a
                 \<and> snd kp = ParamArray a))"

subsection \<open>Series used as concrete inputs\<close>

text \<open>A pint that converts a quantity only to its own unit and reduces no unit, and
  three series: the values \<^verbatim>\<open>[1, 2, 3]\<close> meters over the dimension \<^verbatim>\<open>x\<close> with the
  coordinates \<^verbatim>\<open>[0, 1, 2]\<close> seconds, the expression \<^verbatim>\<open>x\<close>, and the expression
  \<^verbatim>\<open>x*y\<close>.\<close>

definition plain_pint :: pint_lib where
  "plain_pint =
     \<lparr>to_unit = (\<lambda>q u. if q_units q = u then Inr q else Inl (DimensionalityError, ''cannot convert'')),
      reduced_units = (\<lambda>u. u)\<rparr>"

definition discrete_example :: generic_series where
  "discrete_example =
     fresh_generic (GsDiscrete
       \<lparr>da_data = [1, 2, 3], da_shape = [3], da_units = Some ''meter'', da_dims = [''x''],
        da_coords = [(''x'', \<lparr>c_dims = [''x''], c_data = Numeric [0, 1, 2],
                               c_attrs = [(''units'', ''second'')]\<rparr>)],
        da_attrs = []\<rparr>)"


definition product_series :: generic_series where
  "product_series =
     \<lparr>gs_data = GsExpression \<lparr>me_expression = product_expr ''x'' ''y'', me_parameters = []\<rparr>,
      gs_variable_units = Some [(''x'', ''dimensionless''), (''y'', ''dimensionless'')],
      gs_symbol_dims = Some [(''x'', DimStr ''x''), (''y'', DimStr ''y'')],
      gs_shape = None, gs_units = Some ''dimensionless'', gs_interpolation = ''linear''\<rparr>"




text \<open>The series for the expression \<^verbatim>\<open>x\<close> built with \<^verbatim>\<open>units={"x": "meter"}\<close>.\<close>

definition meter_series :: generic_series where
  "meter_series =
     \<lparr>gs_data = GsExpression \<lparr>me_expression = identity_expr ''x'', me_parameters = []\<rparr>,
      gs_variable_units = Some [(''x'', ''meter'')],
      gs_symbol_dims = Some [(''x'', DimStr ''x'')],
      gs_shape = None, gs_units = Some ''meter'', gs_interpolation = ''linear''\<rparr>"

section \<open>Properties of MathematicalExpression\<close>

lemma string_of_nat_digit [simp]: "n < 10 \<Longrightarrow> string_of_nat n = [digit_of n]"
  by (simp add: string_of_nat.simps)

lemma length_default_dims: "length (default_dims n) = n"
  by (induction n) simp_all

lemma default_dims_first: "\<exists>rest. default_dims (Suc n) = ''dim_0'' # rest"
proof (induction n)
  case 0
  show ?case by simp
next
  case (Suc n)
  then obtain rest where r: "default_dims (Suc n) = ''dim_0'' # rest" by blast
  have "default_dims (Suc (Suc n)) = default_dims (Suc n) @ [''dim_'' @ string_of_nat (Suc n)]"
    by simp
  with r show ?case by (simp del: default_dims.simps)
qed

lemma default_dims_none: "''dim_0'' \<in> set (default_dims n) \<Longrightarrow> \<exists>m. n = Suc m"
  by (cases n) simp_all

lemma from_library_not_own:
  "from_library r = Inl (c, m) \<Longrightarrow> \<exists>s. m = Library s"
  by (auto simp: from_library_def split: sum.splits)

lemma DataArray_new_error:
  "DataArray_new m sh u d cs = Inl (c, msg) \<Longrightarrow> \<exists>s. msg = Library s"
  by (auto simp: DataArray_new_def Let_def split: if_splits)

lemma map_items_error:
  assumes "\<And>v c msg. f v = Inl (c, msg) \<Longrightarrow> \<exists>s. msg = Library s"
  shows "map_items f kvs = Inl (c, msg) \<Longrightarrow> \<exists>s. msg = Library s"
proof (induction kvs arbitrary: c msg)
  case Nil
  then show ?case by simp
next
  case (Cons kv kvs)
  obtain k v where kv: "kv = (k, v)" by (cases kv)
  from Cons.prems kv show ?case
    using assms Cons.IH by (auto split: sum.splits)
qed

lemma variable_array_error:
  "variable_array v = Inl (c, msg) \<Longrightarrow> \<exists>s. msg = Library s"
  by (auto simp: variable_array_def DataArray_of_quantity_def
      dest: DataArray_new_error split: kwarg.splits)

lemma parameter_array_error:
  "parameter_array p = Inl (c, msg) \<Longrightarrow> \<exists>s. msg = Library s"
  by (auto simp: parameter_array_def DataArray_of_quantity_def
      dest: DataArray_new_error split: param.splits)

lemma variables_error:
  "map_items variable_array kvs = Inl (c, msg) \<Longrightarrow> \<exists>s. msg = Library s"
  using map_items_error [of variable_array kvs c msg] variable_array_error by blast

lemma parameters_error:
  "map_items parameter_array kvs = Inl (c, msg) \<Longrightarrow> \<exists>s. msg = Library s"
  using map_items_error [of parameter_array kvs c msg] parameter_array_error by blast

lemma me_function_error:
  "me_function e args = Inl (c, msg) \<Longrightarrow> \<exists>s. msg = Library s"
  by (auto simp: me_function_def dest: from_library_not_own split: if_splits)

lemma evaluate_no_collision:
  assumes "set (map fst kwargs) \<inter> set (map fst (me_parameters e)) = {}"
  shows "evaluate e kwargs =
           (case map_items variable_array kwargs of
              Inl err \<Rightarrow> Inl err
            | Inr variables \<Rightarrow>
                (case map_items parameter_array (me_parameters e) of
                   Inl err \<Rightarrow> Inl err
                 | Inr parameters \<Rightarrow> me_function e (variables @ parameters)))"
  using assms by (simp add: evaluate_def)

lemma evaluate_error_is_library:
  assumes "set (map fst kwargs) \<inter> set (map fst (me_parameters e)) = {}"
    and "evaluate e kwargs = Inl (c, msg)"
  shows "\<exists>s. msg = Library s"
proof -
  from assms have "(case map_items variable_array kwargs of
              Inl err \<Rightarrow> Inl err
            | Inr variables \<Rightarrow>
                (case map_items parameter_array (me_parameters e) of
                   Inl err \<Rightarrow> Inl err
                 | Inr parameters \<Rightarrow> me_function e (variables @ parameters))) = Inl (c, msg)"
    by (simp add: evaluate_no_collision)
  then show ?thesis
    by (auto split: sum.splits
        dest: variables_error parameters_error me_function_error)
qed

text \<open>
  C8.  \<^verbatim>\<open>evaluate(**bindings)\<close> raises the ambiguous-rebinding error (the
  \<^verbatim>\<open>ValueError\<close> "The variables ... are already defined as parameters") if and only if
  some supplied binding name is also the name of an already bound parameter.  When no
  name collides, that error is not raised and evaluation proceeds: the bindings and the
  parameters are turned into arrays and handed to the lambdified function, whose result
  (or library error) is the result of \<^verbatim>\<open>evaluate\<close>.
\<close>

theorem evaluate_rebinding:
  "((\<exists>c s. evaluate e kwargs = Inl (c, AlreadyParameters s))
      \<longleftrightarrow> set (map fst kwargs) \<inter> set (map fst (me_parameters e)) \<noteq> {})
   \<and> (set (map fst kwargs) \<inter> set (map fst (me_parameters e)) = {} \<longrightarrow>
        (\<forall>variables parameters.
           map_items variable_array kwargs = Inr variables \<longrightarrow>
           map_items parameter_array (me_parameters e) = Inr parameters \<longrightarrow>
           evaluate e kwargs = me_function e (variables @ parameters)))"
proof (intro conjI iffI impI allI)
  assume "\<exists>c s. evaluate e kwargs = Inl (c, AlreadyParameters s)"
  then obtain c s where err: "evaluate e kwargs = Inl (c, AlreadyParameters s)" by blast
  show "set (map fst kwargs) \<inter> set (map fst (me_parameters e)) \<noteq> {}"
  proof
    assume "set (map fst kwargs) \<inter> set (map fst (me_parameters e)) = {}"
    from evaluate_error_is_library [OF this err] show False by simp
  qed
next
  assume "set (map fst kwargs) \<inter> set (map fst (me_parameters e)) \<noteq> {}"
  then show "\<exists>c s. evaluate e kwargs = Inl (c, AlreadyParameters s)"
    by (simp add: evaluate_def)
next
  fix variables parameters
  assume "set (map fst kwargs) \<inter> set (map fst (me_parameters e)) = {}"
    and "map_items variable_array kwargs = Inr variables"
    and "map_items parameter_array (me_parameters e) = Inr parameters"
  then show "evaluate e kwargs = me_function e (variables @ parameters)"
    by (simp add: evaluate_no_collision)
qed

lemma example_expression_at_three_seconds:
  "evaluate example_expression [(''t'', three_seconds)] =
     Inr \<lparr>da_data = [6], da_shape = [1], da_units = Some ''meter * second'',
          da_dims = [''dim_0''], da_coords = [], da_attrs = []\<rparr>"
  by (auto simp: example_expression_def three_seconds_def evaluate_def variable_array_def
      parameter_array_def DataArray_of_quantity_def DataArray_new_def me_function_def
      product_expr_def multiply_def multiply_units_def from_library_def)

theorem evaluate_rebinding_witness:
  "set (map fst [(''t'', three_seconds)]) \<inter> set (map fst (me_parameters example_expression)) = {}
   \<and> \<not> (\<exists>c s. evaluate example_expression [(''t'', three_seconds)] = Inl (c, AlreadyParameters s))
   \<and> evaluate example_expression [(''t'', three_seconds)] =
       me_function example_expression
         [(''t'', \<lparr>da_data = [3], da_shape = [1], da_units = Some ''second'',
                   da_dims = [''dim_0''], da_coords = [], da_attrs = []\<rparr>),
          (''a'', \<lparr>da_data = [2], da_shape = [], da_units = Some ''meter'',
                   da_dims = [], da_coords = [], da_attrs = []\<rparr>)]
   \<and> set (map fst [(''a'', three_seconds)]) \<inter> set (map fst (me_parameters example_expression)) \<noteq> {}
   \<and> (\<exists>c s. evaluate example_expression [(''a'', three_seconds)] = Inl (c, AlreadyParameters s))"
proof -
  have free: "set (map fst [(''t'', three_seconds)]) \<inter> set (map fst (me_parameters example_expression)) = {}"
    by (simp add: example_expression_def)
  have vs: "map_items variable_array [(''t'', three_seconds)] =
      Inr [(''t'', \<lparr>da_data = [3], da_shape = [1], da_units = Some ''second'',
                   da_dims = [''dim_0''], da_coords = [], da_attrs = []\<rparr>)]"
    by (simp add: three_seconds_def variable_array_def DataArray_of_quantity_def DataArray_new_def)
  have ps: "map_items parameter_array (me_parameters example_expression) =
      Inr [(''a'', \<lparr>da_data = [2], da_shape = [], da_units = Some ''meter'',
                   da_dims = [], da_coords = [], da_attrs = []\<rparr>)]"
    by (simp add: example_expression_def parameter_array_def DataArray_of_quantity_def DataArray_new_def)
  have bound: "set (map fst [(''a'', three_seconds)]) \<inter> set (map fst (me_parameters example_expression)) \<noteq> {}"
    by (simp add: example_expression_def)
  note at_t = evaluate_rebinding [of example_expression "[(''t'', three_seconds)]"]
  note at_a = evaluate_rebinding [of example_expression "[(''a'', three_seconds)]"]
  from at_t free
  have no: "\<not> (\<exists>c s. evaluate example_expression [(''t'', three_seconds)] = Inl (c, AlreadyParameters s))"
    by blast
  from at_t free vs ps
  have ev: "evaluate example_expression [(''t'', three_seconds)] =
       me_function example_expression
         [(''t'', \<lparr>da_data = [3], da_shape = [1], da_units = Some ''second'',
                   da_dims = [''dim_0''], da_coords = [], da_attrs = []\<rparr>) ,
          (''a'', \<lparr>da_data = [2], da_shape = [], da_units = Some ''meter'',
                   da_dims = [], da_coords = [], da_attrs = []\<rparr>)]"
    by auto
  from at_a bound
  have yes: "\<exists>c s. evaluate example_expression [(''a'', three_seconds)] = Inl (c, AlreadyParameters s)"
    by blast
  from free no ev bound yes show ?thesis by blast
qed


section \<open>Properties of TimeSeries\<close>

subsection \<open>Construction from an expression\<close>

text \<open>
  C7.  Constructing a \<^verbatim>\<open>TimeSeries\<close> from an expression whose number of free variables
  (free symbols minus bound parameters) is not exactly one fails with the exception "The
  mathematical expression must have exactly 1 free variable that represents time",
  whatever the other arguments are.
\<close>

theorem TimeSeries_needs_one_variable:
  "num_variables e \<noteq> 1 \<Longrightarrow>
     TimeSeries lib (InExpression e) t interpolation reference_time =
       Inl (PlainException, OneFreeVariable)"
  by (simp add: TimeSeries_def init_expression_def)

theorem TimeSeries_needs_one_variable_witness:
  "num_variables \<lparr>me_expression = product_expr ''a'' ''t'', me_parameters = []\<rparr> = 2
   \<and> TimeSeries (\<lambda>a target method. Inl (ValueError, ''unused''))
        (InExpression \<lparr>me_expression = product_expr ''a'' ''t'', me_parameters = []\<rparr>)
        None None None
      = Inl (PlainException, OneFreeVariable)"
proof -
  have two: "num_variables \<lparr>me_expression = product_expr ''a'' ''t'', me_parameters = []\<rparr> = 2"
    by (simp add: num_variables_def product_expr_def)
  then have "num_variables \<lparr>me_expression = product_expr ''a'' ''t'', me_parameters = []\<rparr> \<noteq> 1"
    by simp
  from TimeSeries_needs_one_variable [OF this] two show ?thesis by blast
qed

subsection \<open>Equality\<close>

text \<open>
  C10.  Two discrete \<^verbatim>\<open>TimeSeries\<close> whose internal data arrays are identical (values,
  time coordinates, units, interpolation attribute) are equal by \<^verbatim>\<open>__eq__\<close>, whatever
  their resampling counters and reference timestamps are.
\<close>

theorem ts_eq_ignores_counter_and_reference:
  "ts_data ts1 = Discrete a \<Longrightarrow> ts_data ts2 = Discrete b \<Longrightarrow> identical a b \<Longrightarrow>
   da_units b \<noteq> None \<Longrightarrow>
     ts_eq (ts1\<lparr>ts_interp_counter := n1, ts_reference_time := r1\<rparr>)
           (ts2\<lparr>ts_interp_counter := n2, ts_reference_time := r2\<rparr>)"
  by (simp add: ts_eq_def)

theorem ts_eq_ignores_counter_and_reference_witness:
  "ts_data (example_series ''linear'') = Discrete (example_array ''linear'')
   \<and> identical (example_array ''linear'') (example_array ''linear'')
   \<and> da_units (example_array ''linear'') \<noteq> None
   \<and> ts_eq ((example_series ''linear'')\<lparr>ts_interp_counter := 0, ts_reference_time := None\<rparr>)
            ((example_series ''linear'')\<lparr>ts_interp_counter := 3, ts_reference_time := Some 1700000000\<rparr>)"
proof -
  have d: "ts_data (example_series ''linear'') = Discrete (example_array ''linear'')"
    by (simp add: example_series_def fresh_series_def)
  have i: "identical (example_array ''linear'') (example_array ''linear'')"
    by (simp add: identical_def)
  have u: "da_units (example_array ''linear'') \<noteq> None"
    by (simp add: example_array_def)
  from ts_eq_ignores_counter_and_reference
    [OF d d i u, where ?n1.0 = 0 and ?r1.0 = None and ?n2.0 = 3 and ?r2.0 = "Some 1700000000"] d i u
  show ?thesis by blast
qed

subsection \<open>The interpolation mode of a series with one time point\<close>

lemma set_interpolation_single:
  assumes "set_interpolation ts m = Inr ts'" and "ts_data ts = Discrete a"
    and "single_time_point a"
  shows "ts_interpolation ts' = Inr (Some ''step'')
         \<and> (\<exists>a'. ts_data ts' = Discrete a' \<and> da_coords a' = da_coords a)
         \<and> ts_interp_counter ts' = ts_interp_counter ts
         \<and> ts_reference_time ts' = ts_reference_time ts"
proof -
  from assms(3) obtain c where c: "map_of (da_coords a) ''time'' = Some c"
    and one: "coord_len (c_data c) = 1"
    by (auto simp: single_time_point_def split: option.splits)
  from assms(2) c one have none: "ts_time ts = Inr None"
    by (simp add: ts_time_def)
  from assms(1) assms(2) none show ?thesis
    by (auto simp: set_interpolation_def ts_interpolation_def Let_def update_conv'
        split: if_splits)
qed

lemma set_interpolation_coords:
  assumes "set_interpolation ts m = Inr ts'" and "ts_data ts' = Discrete a'"
  shows "\<exists>a. ts_data ts = Discrete a \<and> da_coords a = da_coords a'"
  using assms
  by (auto simp: set_interpolation_def Let_def split: ts_payload.splits if_splits sum.splits)

lemma TimeSeries_values_single:
  assumes "TimeSeries_values data t interpolation reference_time = Inr ts"
    and "ts_data ts = Discrete a" and "single_time_point a"
  shows "ts_interpolation ts = Inr (Some ''step'')"
proof -
  from assms(1) obtain ts0 m where s: "set_interpolation ts0 m = Inr ts"
    by (auto simp: TimeSeries_values_def initialize_discrete_quantity_def
        initialize_discrete_array_def Let_def split: ts_input.splits sum.splits)
  from set_interpolation_coords [OF s assms(2)] obtain a0
    where a0: "ts_data ts0 = Discrete a0" and co: "da_coords a0 = da_coords a" by blast
  from assms(3) co have "single_time_point a0" by (simp add: single_time_point_def)
  from set_interpolation_single [OF s a0 this] show ?thesis by simp
qed

lemma init_expression_payload:
  "init_expression lib e reference_time = Inr ts \<Longrightarrow> ts_data ts = Expression e"
  by (auto simp: init_expression_def probed_series_def fresh_series_def Let_def
      split: if_splits list.splits sum.splits option.splits prod.splits)

lemma set_interpolation_valid:
  assumes "ts_data ts = Discrete a" and "single_time_point a" and "m \<in> set valid_interpolations"
  shows "\<exists>ts'. set_interpolation ts m = Inr ts'"
proof -
  from assms(2) obtain c where c: "map_of (da_coords a) ''time'' = Some c"
    and one: "coord_len (c_data c) = 1"
    by (auto simp: single_time_point_def split: option.splits)
  from assms(1) c one have "ts_time ts = Inr None" by (simp add: ts_time_def)
  with assms(1) assms(3) show ?thesis by (simp add: set_interpolation_def Let_def)
qed

lemma degenerate_series:
  assumes "TimeSeries lib (InQuantity q) None interpolation reference_time = Inr ts"
  shows "\<exists>a. ts_data ts = Discrete a \<and> single_time_point a"
proof -
  from assms obtain a0
    where cr: "create_data_array (expand_scalar q) (Time Timedelta_zero None) = Inr a0"
      and s: "set_interpolation (fresh_series (Discrete a0) (t_reference (Time Timedelta_zero None)))
                (case interpolation of None \<Rightarrow> ''step'' | Some i \<Rightarrow> i) = Inr ts"
    by (auto simp: TimeSeries_def TimeSeries_values_def initialize_discrete_quantity_def Let_def
        split: sum.splits)
  from cr have "single_time_point a0"
    by (auto simp: create_data_array_def assign_time_def single_time_point_def rename_dim_def
        Time_def Timedelta_zero_def update_conv' split: sum.splits if_splits)
  then have one: "single_time_point a0" .
  have d0: "ts_data (fresh_series (Discrete a0) (t_reference (Time Timedelta_zero None))) = Discrete a0"
    by (simp add: fresh_series_def)
  from set_interpolation_single [OF s d0 one] one show ?thesis
    by (auto simp: single_time_point_def)
qed

text \<open>
  C6.  A discrete \<^verbatim>\<open>TimeSeries\<close> with one time point has the interpolation mode
  \<^verbatim>\<open>step\<close>: every series the constructor returns with one time point has it; the
  series built without a time coordinate has one time point, hence the mode \<^verbatim>\<open>step\<close>;
  and on a series with one time point the setter accepts every valid mode and leaves a
  series with the same one time point and the mode \<^verbatim>\<open>step\<close>.
\<close>

theorem single_point_is_step:
  "(TimeSeries lib data t interpolation reference_time = Inr ts \<longrightarrow>
      ts_data ts = Discrete a \<longrightarrow> single_time_point a \<longrightarrow>
      ts_interpolation ts = Inr (Some ''step''))
   \<and> (TimeSeries lib (InQuantity q) None interpolation reference_time = Inr ts \<longrightarrow>
        (\<exists>a'. ts_data ts = Discrete a' \<and> single_time_point a')
        \<and> ts_interpolation ts = Inr (Some ''step''))
   \<and> (ts_data ts = Discrete a \<longrightarrow> single_time_point a \<longrightarrow> m \<in> set valid_interpolations \<longrightarrow>
        (\<exists>ts' a'. set_interpolation ts m = Inr ts' \<and> ts_data ts' = Discrete a'
           \<and> single_time_point a' \<and> ts_interpolation ts' = Inr (Some ''step'')))"
proof -
  have built: "ts_interpolation ts = Inr (Some ''step'')"
    if c: "TimeSeries lib data t interpolation reference_time = Inr ts"
      and d: "ts_data ts = Discrete a" and s: "single_time_point a"
  proof (cases data)
    case (InExpression e)
    with c have "ts_data ts = Expression e"
      by (simp add: TimeSeries_def init_expression_payload)
    with d show ?thesis by simp
  next
    case (InQuantity x)
    with c have "TimeSeries_values data t interpolation reference_time = Inr ts"
      by (simp add: TimeSeries_def)
    from TimeSeries_values_single [OF this d s] show ?thesis .
  next
    case (InDataArray x)
    with c have "TimeSeries_values data t interpolation reference_time = Inr ts"
      by (simp add: TimeSeries_def)
    from TimeSeries_values_single [OF this d s] show ?thesis .
  next
    case InUnsupported
    with c show ?thesis by (simp add: TimeSeries_def TimeSeries_values_def)
  qed
  have degenerate: "(\<exists>a'. ts_data ts = Discrete a' \<and> single_time_point a')
        \<and> ts_interpolation ts = Inr (Some ''step'')"
    if c: "TimeSeries lib (InQuantity q) None interpolation reference_time = Inr ts"
  proof -
    from degenerate_series [OF c] obtain a' where a': "ts_data ts = Discrete a'"
      and s: "single_time_point a'" by blast
    from c have "TimeSeries_values (InQuantity q) None interpolation reference_time = Inr ts"
      by (simp add: TimeSeries_def)
    from TimeSeries_values_single [OF this a' s] a' s show ?thesis by blast
  qed
  have written: "\<exists>ts' a'. set_interpolation ts m = Inr ts' \<and> ts_data ts' = Discrete a'
           \<and> single_time_point a' \<and> ts_interpolation ts' = Inr (Some ''step'')"
    if d: "ts_data ts = Discrete a" and s: "single_time_point a"
      and m: "m \<in> set valid_interpolations"
  proof -
    from set_interpolation_valid [OF d s m] obtain ts' where st: "set_interpolation ts m = Inr ts'"
      by blast
    from set_interpolation_single [OF st d s] obtain a' where "ts_data ts' = Discrete a'"
      and "da_coords a' = da_coords a" and "ts_interpolation ts' = Inr (Some ''step'')" by blast
    with s st show ?thesis by (auto simp: single_time_point_def)
  qed
  from built degenerate written show ?thesis by blast
qed

theorem single_point_is_step_witness:
  "TimeSeries unused_lib (InQuantity \<lparr>q_mag = [5], q_shape = [], q_units = ''meter''\<rparr>) None
       (Some ''linear'') None = Inr (fresh_series (Discrete (single_array 5 0)) None)
   \<and> ts_data (fresh_series (Discrete (single_array 5 0)) None) = Discrete (single_array 5 0)
   \<and> single_time_point (single_array 5 0)
   \<and> ''cubic'' \<in> set valid_interpolations
   \<and> ts_interpolation (fresh_series (Discrete (single_array 5 0)) None) = Inr (Some ''step'')
   \<and> (\<exists>ts' a'. set_interpolation (fresh_series (Discrete (single_array 5 0)) None) ''cubic'' = Inr ts'
         \<and> ts_data ts' = Discrete a' \<and> single_time_point a'
         \<and> ts_interpolation ts' = Inr (Some ''step''))"
proof -
  let ?ts = "fresh_series (Discrete (single_array 5 0)) None"
  have c: "TimeSeries unused_lib (InQuantity \<lparr>q_mag = [5], q_shape = [], q_units = ''meter''\<rparr>) None
       (Some ''linear'') None = Inr ?ts"
    by (simp add: TimeSeries_def TimeSeries_values_def initialize_discrete_quantity_def
        expand_scalar_def Time_def Timedelta_zero_def create_data_array_def
        DataArray_of_quantity_def DataArray_new_def rename_dim_def assign_time_def axis_len_def
        set_interpolation_def fresh_series_def ts_time_def valid_interpolations_def
        single_array_def)
  have d: "ts_data ?ts = Discrete (single_array 5 0)"
    by (simp add: fresh_series_def)
  have s: "single_time_point (single_array 5 0)"
    by (simp add: single_time_point_def single_array_def)
  have m: "''cubic'' \<in> set valid_interpolations"
    by (simp add: valid_interpolations_def)
  note inst = single_point_is_step [of unused_lib
      "InQuantity \<lparr>q_mag = [5], q_shape = [], q_units = ''meter''\<rparr>" None "Some ''linear''" None
      ?ts "single_array 5 0" "\<lparr>q_mag = [5], q_shape = [], q_units = ''meter''\<rparr>" "''cubic''"]
  from inst c d s have step: "ts_interpolation ?ts = Inr (Some ''step'')" by blast
  from inst d s m have "\<exists>ts' a'. set_interpolation ?ts ''cubic'' = Inr ts'
         \<and> ts_data ts' = Discrete a' \<and> single_time_point a'
         \<and> ts_interpolation ts' = Inr (Some ''step'')" by blast
  with c d s m step show ?thesis by blast
qed

subsection \<open>Resampling\<close>

lemmas ts_defs = TimeSeries_def TimeSeries_values_def initialize_discrete_quantity_def
  initialize_discrete_array_def check_data_array_def transpose_time_def move_to_front_def
  expand_scalar_def Time_def Timedelta_zero_def create_data_array_def
  DataArray_of_quantity_def DataArray_new_def rename_dim_def assign_time_def axis_len_def
  set_interpolation_def fresh_series_def ts_time_def valid_interpolations_def
  interp_time_def interp_time_discrete_def interp_time_expression_def xr_interp_like_def
  step_interp_def last_at_or_before_def slice_def data_of_def array_quantity_def
  ts_interpolation_def as_quantity_def time_units_def seconds_def
  evaluate_def variable_array_def parameter_array_def me_function_def from_library_def
  insert_commute

lemma example_series_resampled:
  "interp_time unused_lib ((example_series ''step'')\<lparr>ts_interp_counter := 2\<rparr>)
       \<lparr>t_deltas = [1500000000, 2000000000], t_reference = None\<rparr> ''s''
   = ([AlreadyInterpolated 2],
      Inr ((fresh_series (Discrete (sampled_array [1, 2] ''meter'' [1500000000, 2000000000])) None)
             \<lparr>ts_interp_counter := 3\<rparr>))"
  by (simp add: ts_defs example_series_def example_array_def sampled_array_def upt_rec)

lemma example_expression_series_sampled:
  "interp_time unused_lib example_expression_series
       \<lparr>t_deltas = [1500000000, 2000000000], t_reference = None\<rparr> ''s''
   = ([],
      Inr ((fresh_series (Discrete (sampled_array [3, 4] ''meter * second'' [1500000000, 2000000000])) None)
             \<lparr>ts_interp_counter := 1\<rparr>))"
  by (simp add: ts_defs example_expression_series_def example_expression_def product_expr_def
      multiply_def multiply_units_def sampled_array_def upt_rec)

lemma interp_time_warnings:
  "fst (interp_time lib ts t time_unit) =
     (if ts_interp_counter ts > 0 then [AlreadyInterpolated (ts_interp_counter ts)] else [])"
  by (simp add: interp_time_def Let_def)

lemma interp_time_counter:
  "snd (interp_time lib ts t time_unit) = Inr ts' \<Longrightarrow>
     ts_interp_counter ts' = ts_interp_counter ts + 1"
  by (auto simp: interp_time_def Let_def split: sum.splits)

text \<open>
  C5.  For every \<^verbatim>\<open>TimeSeries\<close> object (discrete or expression-backed),
  \<^verbatim>\<open>interp_time\<close> emits the precision-loss warning if and only if the counter of the
  object is already greater than zero (whether or not the call then succeeds); it leaves
  the object, and every other existing object, unchanged; and when it returns, the
  series it returns is a new object whose counter is the counter of the original plus one.
\<close>

theorem interp_time_new_series:
  assumes "self < length h"
    and "interp_time_method lib h self t time_unit = (h', warnings, r)"
  shows "(warnings \<noteq> [] \<longleftrightarrow> ts_interp_counter (h ! self) > 0)
         \<and> (warnings \<noteq> [] \<longrightarrow> warnings = [AlreadyInterpolated (ts_interp_counter (h ! self))])
         \<and> h' ! self = h ! self
         \<and> take (length h) h' = h
         \<and> (\<forall>new. r = Inr new \<longrightarrow>
               new = length h \<and> length h' = Suc (length h)
               \<and> ts_interp_counter (h' ! new) = ts_interp_counter (h ! self) + 1)"
proof -
  obtain w res where it: "interp_time lib (h ! self) t time_unit = (w, res)"
    by (cases "interp_time lib (h ! self) t time_unit")
  from interp_time_warnings [of lib "h ! self" t time_unit] it
  have w: "w = (if ts_interp_counter (h ! self) > 0
                then [AlreadyInterpolated (ts_interp_counter (h ! self))] else [])"
    by simp
  show ?thesis
  proof (cases res)
    case (Inl err)
    with assms it have "h' = h" "warnings = w" "r = Inl err"
      by (simp_all add: interp_time_method_def)
    with w assms(1) show ?thesis by simp
  next
    case (Inr ts)
    with assms it have eqs: "h' = h @ [ts]" "warnings = w" "r = Inr (length h)"
      by (simp_all add: interp_time_method_def)
    from it Inr have "snd (interp_time lib (h ! self) t time_unit) = Inr ts" by simp
    from interp_time_counter [OF this]
    have "ts_interp_counter ts = ts_interp_counter (h ! self) + 1" .
    with eqs w assms(1) show ?thesis by (simp add: nth_append)
  qed
qed

theorem interp_time_new_series_witness:
  "(0::nat) < length [(example_series ''step'')\<lparr>ts_interp_counter := 2\<rparr>, example_expression_series]
   \<and> interp_time_method unused_lib
         [(example_series ''step'')\<lparr>ts_interp_counter := 2\<rparr>, example_expression_series] 0
         \<lparr>t_deltas = [1500000000, 2000000000], t_reference = None\<rparr> ''s''
       = ([(example_series ''step'')\<lparr>ts_interp_counter := 2\<rparr>, example_expression_series,
           (fresh_series (Discrete (sampled_array [1, 2] ''meter'' [1500000000, 2000000000])) None)
              \<lparr>ts_interp_counter := 3\<rparr>],
          [AlreadyInterpolated 2], Inr 2)
   \<and> ts_interp_counter
         ([(example_series ''step'')\<lparr>ts_interp_counter := 2\<rparr>, example_expression_series,
           (fresh_series (Discrete (sampled_array [1, 2] ''meter'' [1500000000, 2000000000])) None)
              \<lparr>ts_interp_counter := 3\<rparr>] ! 2)
       = ts_interp_counter
           ([(example_series ''step'')\<lparr>ts_interp_counter := 2\<rparr>, example_expression_series] ! 0) + 1
   \<and> (1::nat) < length [(example_series ''step'')\<lparr>ts_interp_counter := 2\<rparr>, example_expression_series]
   \<and> interp_time_method unused_lib
         [(example_series ''step'')\<lparr>ts_interp_counter := 2\<rparr>, example_expression_series] 1
         \<lparr>t_deltas = [1500000000, 2000000000], t_reference = None\<rparr> ''s''
       = ([(example_series ''step'')\<lparr>ts_interp_counter := 2\<rparr>, example_expression_series,
           (fresh_series (Discrete (sampled_array [3, 4] ''meter * second'' [1500000000, 2000000000])) None)
              \<lparr>ts_interp_counter := 1\<rparr>],
          [], Inr 2)
   \<and> ts_interp_counter
         ([(example_series ''step'')\<lparr>ts_interp_counter := 2\<rparr>, example_expression_series,
           (fresh_series (Discrete (sampled_array [3, 4] ''meter * second'' [1500000000, 2000000000])) None)
              \<lparr>ts_interp_counter := 1\<rparr>] ! 2)
       = ts_interp_counter
           ([(example_series ''step'')\<lparr>ts_interp_counter := 2\<rparr>, example_expression_series] ! 1) + 1"
proof -
  let ?h = "[(example_series ''step'')\<lparr>ts_interp_counter := 2\<rparr>, example_expression_series]"
  let ?t = "\<lparr>t_deltas = [1500000000, 2000000000], t_reference = None\<rparr>"
  let ?n0 = "(fresh_series (Discrete (sampled_array [1, 2] ''meter'' [1500000000, 2000000000])) None)
              \<lparr>ts_interp_counter := 3\<rparr>"
  let ?n1 = "(fresh_series (Discrete (sampled_array [3, 4] ''meter * second'' [1500000000, 2000000000])) None)
              \<lparr>ts_interp_counter := 1\<rparr>"
  have l0: "0 < length ?h" and l1: "1 < length ?h" by simp_all
  have m0: "interp_time_method unused_lib ?h 0 ?t ''s'' = (?h @ [?n0], [AlreadyInterpolated 2], Inr 2)"
    by (simp add: interp_time_method_def example_series_resampled)
  have m1: "interp_time_method unused_lib ?h 1 ?t ''s'' = (?h @ [?n1], [], Inr 2)"
    by (simp add: interp_time_method_def example_expression_series_sampled)
  from interp_time_new_series [OF l0 m0]
  have c0: "ts_interp_counter ((?h @ [?n0]) ! 2) = ts_interp_counter (?h ! 0) + 1" by blast
  from interp_time_new_series [OF l1 m1]
  have c1: "ts_interp_counter ((?h @ [?n1]) ! 2) = ts_interp_counter (?h ! 1) + 1" by blast
  from l0 l1 m0 m1 c0 c1 show ?thesis by simp
qed

subsection \<open>The double probe of an expression-backed series\<close>

text \<open>
  C2.  Let the expression have exactly one free variable and let the probe at one
  second succeed with a unit-tagged result, so that the constructor reaches its check
  "that all parameters of the expression support time arrays".  Then the constructor
  calls \<^verbatim>\<open>interp_time\<close> on the object with a 2-element and then a 3-element array of
  seconds: it returns the object exactly when both calls succeed, and when the first
  call fails, or the first succeeds and the second fails, it raises the exception "The
  expression can not be evaluated with arrays of time deltas. Ensure that all parameters
  that are multiplied with the time variable have an outer dimension of size 1. ...",
  which carries the message of the failed call.
\<close>

theorem expression_double_probe:
  assumes "num_variables e = 1"
    and "get_variable_names e = v # vs"
    and "evaluate e [(v, one_second)] = Inr d"
    and "da_units d = Some u"
  shows
    "(TimeSeries lib (InExpression e) t interpolation r = Inr (probed_series e r v d u)
        \<longleftrightarrow> (\<exists>a b. snd (interp_time lib (probed_series e r v d u) (seconds [1, 2]) ''s'') = Inr a
                  \<and> snd (interp_time lib (probed_series e r v d u) (seconds [1, 2, 3]) ''s'') = Inr b))
     \<and> (\<forall>ts. TimeSeries lib (InExpression e) t interpolation r = Inr ts \<longrightarrow>
            ts = probed_series e r v d u)
     \<and> (\<forall>c m. snd (interp_time lib (probed_series e r v d u) (seconds [1, 2]) ''s'') = Inl (c, m) \<longrightarrow>
            TimeSeries lib (InExpression e) t interpolation r = Inl (PlainException, TimeDeltaArrays m))
     \<and> (\<forall>a c m. snd (interp_time lib (probed_series e r v d u) (seconds [1, 2]) ''s'') = Inr a \<longrightarrow>
            snd (interp_time lib (probed_series e r v d u) (seconds [1, 2, 3]) ''s'') = Inl (c, m) \<longrightarrow>
            TimeSeries lib (InExpression e) t interpolation r = Inl (PlainException, TimeDeltaArrays m))"
proof -
  let ?p = "probed_series e r v d u"
  have flow: "TimeSeries lib (InExpression e) t interpolation r =
      (case snd (interp_time lib ?p (seconds [1, 2]) ''s'') of
         Inl (c, m) \<Rightarrow> Inl (PlainException, TimeDeltaArrays m)
       | Inr first \<Rightarrow>
           (case snd (interp_time lib ?p (seconds [1, 2, 3]) ''s'') of
              Inl (c, m) \<Rightarrow> Inl (PlainException, TimeDeltaArrays m)
            | Inr second \<Rightarrow> Inr ?p))"
    using assms by (simp add: TimeSeries_def init_expression_def Let_def)
  show ?thesis
    unfolding flow by (auto split: sum.splits prod.splits)
qed

lemma example_expression_probed:
  "num_variables example_expression = 1"
  "get_variable_names example_expression = [''t'']"
  "evaluate example_expression [(''t'', one_second)] =
     Inr \<lparr>da_data = [2], da_shape = [], da_units = Some ''meter * second'', da_dims = [],
          da_coords = [], da_attrs = []\<rparr>"
  "probed_series example_expression None ''t''
     \<lparr>da_data = [2], da_shape = [], da_units = Some ''meter * second'', da_dims = [],
      da_coords = [], da_attrs = []\<rparr> ''meter * second'' = example_expression_series"
  by (simp_all add: num_variables_def get_variable_names_def example_expression_def
      product_expr_def multiply_def multiply_units_def one_second_def ts_defs probed_series_def
      probe_shape_def example_expression_series_def)

lemma example_expression_probes:
  "snd (interp_time unused_lib example_expression_series (seconds [1, 2]) ''s'') =
     Inr ((fresh_series (Discrete (sampled_array [2, 4] ''meter * second'' [1000000000, 2000000000])) None)
            \<lparr>ts_interp_counter := 1\<rparr>)"
  "snd (interp_time unused_lib example_expression_series (seconds [1, 2, 3]) ''s'') =
     Inr ((fresh_series (Discrete (sampled_array [2, 4, 6] ''meter * second''
                                      [1000000000, 2000000000, 3000000000])) None)
            \<lparr>ts_interp_counter := 1\<rparr>)"
  by (simp_all add: ts_defs example_expression_series_def example_expression_def product_expr_def
      multiply_def multiply_units_def sampled_array_def upt_rec)

lemma aliased_expression_probed:
  "num_variables aliased_expression = 1"
  "get_variable_names aliased_expression = [''t'']"
  "evaluate aliased_expression [(''t'', one_second)] =
     Inr \<lparr>da_data = [1, 2], da_shape = [2], da_units = Some ''meter * second'',
          da_dims = [''time''], da_coords = [], da_attrs = []\<rparr>"
  by (simp_all add: num_variables_def get_variable_names_def aliased_expression_def
      product_expr_def multiply_def multiply_units_def one_second_def ts_defs)

lemma aliased_expression_probes:
  "snd (interp_time unused_lib
          (probed_series aliased_expression None ''t''
             \<lparr>da_data = [1, 2], da_shape = [2], da_units = Some ''meter * second'',
              da_dims = [''time''], da_coords = [], da_attrs = []\<rparr> ''meter * second'')
          (seconds [1, 2]) ''s'') =
     Inr ((fresh_series (Discrete (sampled_array [1, 4] ''meter * second'' [1000000000, 2000000000])) None)
            \<lparr>ts_interp_counter := 1\<rparr>)"
  "snd (interp_time unused_lib
          (probed_series aliased_expression None ''t''
             \<lparr>da_data = [1, 2], da_shape = [2], da_units = Some ''meter * second'',
              da_dims = [''time''], da_coords = [], da_attrs = []\<rparr> ''meter * second'')
          (seconds [1, 2, 3]) ''s'') =
     Inl (ValueError, Library ''arguments without labels along a dimension have different sizes'')"
  by (simp_all add: ts_defs probed_series_def probe_shape_def aliased_expression_def product_expr_def
      multiply_def multiply_units_def sampled_array_def upt_rec)

theorem expression_double_probe_witness:
  "num_variables example_expression = 1
   \<and> get_variable_names example_expression = [''t'']
   \<and> evaluate example_expression [(''t'', one_second)] =
       Inr \<lparr>da_data = [2], da_shape = [], da_units = Some ''meter * second'', da_dims = [],
            da_coords = [], da_attrs = []\<rparr>
   \<and> TimeSeries unused_lib (InExpression example_expression) None None None =
       Inr example_expression_series
   \<and> num_variables aliased_expression = 1
   \<and> get_variable_names aliased_expression = [''t'']
   \<and> evaluate aliased_expression [(''t'', one_second)] =
       Inr \<lparr>da_data = [1, 2], da_shape = [2], da_units = Some ''meter * second'',
            da_dims = [''time''], da_coords = [], da_attrs = []\<rparr>
   \<and> TimeSeries unused_lib (InExpression aliased_expression) None None None =
       Inl (PlainException,
            TimeDeltaArrays (Library ''arguments without labels along a dimension have different sizes''))"
proof -
  let ?d = "\<lparr>da_data = [2], da_shape = [], da_units = Some ''meter * second'', da_dims = [],
            da_coords = [], da_attrs = []\<rparr>"
  let ?d' = "\<lparr>da_data = [1, 2], da_shape = [2], da_units = Some ''meter * second'',
            da_dims = [''time''], da_coords = [], da_attrs = []\<rparr>"
  have u: "da_units ?d = Some ''meter * second''" and u': "da_units ?d' = Some ''meter * second''"
    by simp_all
  note good = expression_double_probe
    [OF example_expression_probed(1) example_expression_probed(2) example_expression_probed(3) u,
      of unused_lib None None None]
  note bad = expression_double_probe
    [OF aliased_expression_probed(1) aliased_expression_probed(2) aliased_expression_probed(3) u',
      of unused_lib None None None]
  from good example_expression_probes
  have built: "TimeSeries unused_lib (InExpression example_expression) None None None =
       Inr example_expression_series"
    unfolding example_expression_probed(4) by blast
  from bad aliased_expression_probes
  have failed: "TimeSeries unused_lib (InExpression aliased_expression) None None None =
       Inl (PlainException,
            TimeDeltaArrays (Library ''arguments without labels along a dimension have different sizes''))"
    by blast
  from built failed example_expression_probed(1,2,3) aliased_expression_probed
  show ?thesis by blast
qed

subsection \<open>Interpolating onto a grid that already matches\<close>

lemma create_point:
  assumes "create_data_array q \<lparr>t_deltas = [d], t_reference = ref\<rparr> = Inr a"
  shows "(\<exists>rest. q_shape q = 1 # rest) \<and> a = (point_array q d)\<lparr>da_attrs := []\<rparr>"
proof -
  let ?a0 = "\<lparr>da_data = q_mag q, da_shape = q_shape q, da_units = Some (q_units q),
              da_dims = default_dims (length (q_shape q)), da_coords = [], da_attrs = []\<rparr>"
  have new: "DataArray_of_quantity q None = Inr ?a0"
    by (simp add: DataArray_of_quantity_def DataArray_new_def length_default_dims)
  from assms new have in0: "''dim_0'' \<in> set (default_dims (length (q_shape q)))"
    by (auto simp: create_data_array_def rename_dim_def split: if_splits)
  from default_dims_none [OF this] obtain m where m: "length (q_shape q) = Suc m" by blast
  then obtain n rest where sh: "q_shape q = n # rest" by (cases "q_shape q") simp_all
  from default_dims_first [of m] m obtain ds where ds: "default_dims (length (q_shape q)) = ''dim_0'' # ds"
    by auto
  let ?a1 = "?a0\<lparr>da_dims := map (\<lambda>x. if x = ''dim_0'' then ''time'' else x) (default_dims (length (q_shape q)))\<rparr>"
  from in0 have ren: "rename_dim ?a0 ''dim_0'' ''time'' = Inr ?a1"
    by (simp add: rename_dim_def)
  from assms new ren have asg: "assign_time ?a1 [d] = Inr a"
    by (simp add: create_data_array_def)
  have ax: "axis_len (da_dims ?a1) (da_shape ?a1) ''time'' = Some n"
    unfolding axis_len_def using ds sh by (simp del: default_dims.simps)
  from asg ax have n1: "n = 1" and a: "a = ?a1\<lparr>da_coords := [(''time'', \<lparr>c_dims = [''time''], c_data = Timedelta64 [d], c_attrs = []\<rparr>)]\<rparr>"
    by (auto simp: assign_time_def split: if_splits)
  from sh n1 a show ?thesis by (simp add: point_array_def)
qed


lemma point_array_facts:
  assumes "q_shape q = 1 # rest"
  shows "\<exists>ds. da_dims (point_array q d) = ''time'' # ds"
proof -
  from default_dims_first [of "length rest"] obtain ds
    where "default_dims (Suc (length rest)) = ''dim_0'' # ds" by blast
  with assms show ?thesis by (simp add: point_array_def del: default_dims.simps)
qed

lemma create_point_ok:
  assumes "q_shape q = 1 # rest"
  shows "create_data_array q \<lparr>t_deltas = [d], t_reference = ref\<rparr> = Inr ((point_array q d)\<lparr>da_attrs := []\<rparr>)"
proof -
  from default_dims_first [of "length rest"] obtain ds
    where ds: "default_dims (Suc (length rest)) = ''dim_0'' # ds" by blast
  with length_default_dims [of "Suc (length rest)"] have "length ds = length rest"
    by (simp del: default_dims.simps)
  with ds assms show ?thesis
    by (simp add: Let_def create_data_array_def DataArray_of_quantity_def DataArray_new_def
        length_default_dims rename_dim_def assign_time_def axis_len_def point_array_def
        del: default_dims.simps)
qed

lemma set_interpolation_point:
  assumes "m \<in> set valid_interpolations"
  shows "set_interpolation (fresh_series (Discrete ((point_array q d)\<lparr>da_attrs := []\<rparr>)) r) m
         = Inr (fresh_series (Discrete (point_array q d)) r)"
  using assms
  by (simp add: set_interpolation_def fresh_series_def ts_time_def point_array_def)

lemma set_interpolation_valid_mode:
  "set_interpolation ts m = Inr ts' \<Longrightarrow> ts_data ts = Discrete a \<Longrightarrow> m \<in> set valid_interpolations"
  by (auto simp: set_interpolation_def split: if_splits)

lemma init_point:
  assumes "initialize_discrete_quantity q (Some \<lparr>t_deltas = [d], t_reference = ref\<rparr>) interpolation = Inr ts"
  shows "(\<exists>rest. q_shape (expand_scalar q) = 1 # rest)
         \<and> ts = fresh_series (Discrete (point_array (expand_scalar q) d)) ref"
proof -
  let ?m = "case interpolation of None \<Rightarrow> ''step'' | Some i \<Rightarrow> i"
  from assms obtain a where cr: "create_data_array (expand_scalar q) \<lparr>t_deltas = [d], t_reference = ref\<rparr> = Inr a"
    and st: "set_interpolation (fresh_series (Discrete a) ref) ?m = Inr ts"
    by (auto simp: initialize_discrete_quantity_def Let_def Time_def split: sum.splits)
  from create_point [OF cr] have sh: "\<exists>rest. q_shape (expand_scalar q) = 1 # rest"
    and a: "a = (point_array (expand_scalar q) d)\<lparr>da_attrs := []\<rparr>" by blast+
  have "ts_data (fresh_series (Discrete a) ref) = Discrete a" by (simp add: fresh_series_def)
  from set_interpolation_valid_mode [OF st this] have "?m \<in> set valid_interpolations" .
  from set_interpolation_point [OF this, of "expand_scalar q" d ref] st a sh
  show ?thesis by simp
qed

lemma init_point_ok:
  assumes "q_shape q = 1 # rest"
  shows "initialize_discrete_quantity q (Some \<lparr>t_deltas = [d], t_reference = ref\<rparr>) (Some ''step'')
           = Inr (fresh_series (Discrete (point_array q d)) ref)"
proof -
  have v: "''step'' \<in> set valid_interpolations" by (simp add: valid_interpolations_def)
  from assms have e: "expand_scalar q = q" by (simp add: expand_scalar_def)
  from create_point_ok [OF assms, of d ref] set_interpolation_point [OF v, of q d ref] e
  show ?thesis by (simp add: initialize_discrete_quantity_def Time_def)
qed

lemma step_point:
  assumes "q_shape q = 1 # rest" and "length (q_mag q) \<le> prod_list rest"
  shows "xr_interp_like lib (point_array q d) [(''time'', Timedelta64 [d])] (Some ''step'')
           = Inr (point_array q d)"
proof -
  from point_array_facts [OF assms(1), of d] obtain ds
    where ds: "da_dims (point_array q d) = ''time'' # ds" by blast
  have l: "last_at_or_before [d] d = Some 0"
    by (simp add: last_at_or_before_def)
  from assms have sl: "slice (point_array q d) 0 = q_mag q"
    by (simp add: slice_def point_array_def)
  have "step_interp (point_array q d) [d] = Some (point_array q d)"
    using assms(1) l sl by (simp add: step_interp_def point_array_def)
  with ds show ?thesis by (simp add: xr_interp_like_def)
qed


lemma slice_length: "length (slice a i) \<le> prod_list (tl (da_shape a))"
  by (simp add: slice_def Let_def)

lemma step_interp_single:
  assumes "step_interp a [x] = Some dax"
  shows "length (da_data dax) \<le> prod_list (tl (da_shape dax)) \<and> da_shape dax \<noteq> []"
  using assms slice_length [of a]
  by (auto simp: step_interp_def split: option.splits coord_data.splits)

lemma xr_interp_like_single:
  assumes "\<And>a tgt m r. lib a tgt m = Inr r \<Longrightarrow> length (da_data r) = prod_list (da_shape r)"
    and "xr_interp_like lib a [(''time'', Timedelta64 [x])] im = Inr dax"
  shows "(length (da_data dax) \<le> prod_list (tl (da_shape dax)) \<and> da_shape dax \<noteq> [])
         \<or> length (da_data dax) = prod_list (da_shape dax)"
proof (cases "im = Some ''step'' \<and> take 1 (da_dims a) = [''time''] \<and> step_interp a [x] \<noteq> None")
  case True
  with assms(2) have "step_interp a [x] = Some dax"
    by (auto simp: xr_interp_like_def)
  from step_interp_single [OF this] show ?thesis by simp
next
  case False
  with assms(2) have "from_library (lib a [(''time'', Timedelta64 [x])] im) = Inr dax"
    by (auto simp: xr_interp_like_def split: if_splits option.splits)
  then have "lib a [(''time'', Timedelta64 [x])] im = Inr dax"
    by (auto simp: from_library_def split: sum.splits)
  from assms(1) [OF this] show ?thesis by simp
qed

lemma Time_single:
  "\<exists>x. t_deltas (Time (Time \<lparr>t_deltas = [d], t_reference = ref\<rparr> None) r) = [x]"
  by (auto simp: Time_def split: option.splits)

lemma Time_same:
  "Time (Time \<lparr>t_deltas = [d], t_reference = ref\<rparr> None) ref = \<lparr>t_deltas = [d], t_reference = ref\<rparr>"
  by (auto simp: Time_def split: option.splits)

text \<open>
  C4.  Let a discrete \<^verbatim>\<open>TimeSeries\<close> be interpolated onto a single time point, and let
  that call return a series.  Interpolating the returned series onto the same time point
  returns a series again, and the two are equal by \<^verbatim>\<open>__eq__\<close> (in both directions):
  the returned series has one time point, so its mode is \<^verbatim>\<open>step\<close>, and the step
  interpolation onto its own time coordinate gives its own value back.  The array
  library is arbitrary but for returning arrays with as many values as their shape says.
\<close>

theorem interp_time_idempotent:
  assumes lib_wf: "\<And>a tgt m r. lib a tgt m = Inr r \<Longrightarrow> length (da_data r) = prod_list (da_shape r)"
    and disc: "ts_data ts = Discrete a"
    and first: "snd (interp_time lib ts \<lparr>t_deltas = [d], t_reference = ref\<rparr> time_unit) = Inr ts1"
  shows "\<exists>ts2. snd (interp_time lib ts1 \<lparr>t_deltas = [d], t_reference = ref\<rparr> time_unit') = Inr ts2
           \<and> ts_eq ts2 ts1 \<and> ts_eq ts1 ts2"
proof -
  let ?T = "\<lparr>t_deltas = [d], t_reference = ref\<rparr>"
  have T: "Time ?T None = ?T" by (simp add: Time_def)
  from first disc obtain im dax ts0
    where im: "ts_interpolation ts = Inr im"
      and dax: "interp_time_discrete lib a im (Time (Time ?T None) (ts_reference_time ts)) = Inr dax"
      and built: "TimeSeries_values (data_of dax) (Some ?T) im None = Inr ts0"
      and ts1: "ts1 = ts0\<lparr>ts_interp_counter := ts_interp_counter ts + 1\<rparr>"
    by (auto simp: interp_time_def Let_def T split: sum.splits)
  from built obtain u where u: "da_units dax = Some u"
    by (cases "da_units dax") (auto simp: data_of_def array_quantity_def TimeSeries_values_def)
  let ?q = "\<lparr>q_mag = da_data dax, q_shape = da_shape dax, q_units = u\<rparr>"
  from u have dq: "data_of dax = InQuantity ?q" by (simp add: data_of_def array_quantity_def)
  with built have "initialize_discrete_quantity ?q (Some ?T) im = Inr ts0"
    by (simp add: TimeSeries_values_def)
  from init_point [OF this] obtain rest
    where sh: "q_shape (expand_scalar ?q) = 1 # rest"
      and ts0: "ts0 = fresh_series (Discrete (point_array (expand_scalar ?q) d)) ref" by blast
  let ?q' = "expand_scalar ?q"
  let ?P = "point_array ?q' d"
  from Time_single [of d ref "ts_reference_time ts"] obtain x
    where "t_deltas (Time (Time ?T None) (ts_reference_time ts)) = [x]" by blast
  with dax have "xr_interp_like lib a [(''time'', Timedelta64 [x])] im = Inr dax"
    by (simp add: interp_time_discrete_def)
  from xr_interp_like_single [OF lib_wf this]
  have "(length (da_data dax) \<le> prod_list (tl (da_shape dax)) \<and> da_shape dax \<noteq> [])
         \<or> length (da_data dax) = prod_list (da_shape dax)" by simp
  with sh have len: "length (q_mag ?q') \<le> prod_list rest"
    by (auto simp: expand_scalar_def split: if_splits)
  have second_interp: "ts_interpolation ts1 = Inr (Some ''step'')"
    by (simp add: ts1 ts0 ts_interpolation_def fresh_series_def point_array_def)
  have second_data: "ts_data ts1 = Discrete ?P" and second_ref: "ts_reference_time ts1 = ref"
    and second_counter: "ts_interp_counter ts1 = ts_interp_counter ts + 1"
    by (simp_all add: ts1 ts0 fresh_series_def)
  have second_dax: "interp_time_discrete lib ?P (Some ''step'') (Time (Time ?T None) ref) = Inr ?P"
    unfolding Time_same interp_time_discrete_def using step_point [OF sh len] by simp
  have second_q: "data_of ?P = InQuantity ?q'"
    by (simp add: data_of_def array_quantity_def point_array_def)
  have second_built: "TimeSeries_values (data_of ?P) (Some ?T) (Some ''step'') None
      = Inr (fresh_series (Discrete ?P) ref)"
    unfolding second_q using init_point_ok [OF sh, of d ref] by (simp add: TimeSeries_values_def)
  have second: "snd (interp_time lib ts1 ?T time_unit')
      = Inr ((fresh_series (Discrete ?P) ref)\<lparr>ts_interp_counter := ts_interp_counter ts1 + 1\<rparr>)"
    using second_interp second_data second_ref second_dax second_built
    by (simp add: interp_time_def Let_def T)
  have units: "da_units ?P \<noteq> None" by (simp add: point_array_def)
  from second second_data units show ?thesis
    by (simp add: ts_eq_def identical_def fresh_series_def)
qed

lemma those_length: "those xs = Some ys \<Longrightarrow> length ys = length xs"
  by (induction xs arbitrary: ys) (auto split: option.splits)

lemma linear_lib_wf:
  "linear_lib a tgt m = Inr r \<Longrightarrow> length (da_data r) = prod_list (da_shape r)"
  by (auto simp: linear_lib_def those_length
      split: list.splits option.splits coord_data.splits prod.splits)

lemma example_series_linear_at_point:
  "snd (interp_time linear_lib (example_series ''linear'')
          \<lparr>t_deltas = [1500000000], t_reference = None\<rparr> ''s'')
   = Inr ((fresh_series (Discrete (sampled_array [3 / 2] ''meter'' [1500000000])) None)
            \<lparr>ts_interp_counter := 1\<rparr>)"
  by (simp add: ts_defs linear_lib_def example_series_def example_array_def sampled_array_def)

theorem interp_time_idempotent_witness:
  "ts_data (example_series ''linear'') = Discrete (example_array ''linear'')
   \<and> snd (interp_time linear_lib (example_series ''linear'')
            \<lparr>t_deltas = [1500000000], t_reference = None\<rparr> ''s'')
       = Inr ((fresh_series (Discrete (sampled_array [3 / 2] ''meter'' [1500000000])) None)
                \<lparr>ts_interp_counter := 1\<rparr>)
   \<and> (\<exists>ts2. snd (interp_time linear_lib
                    ((fresh_series (Discrete (sampled_array [3 / 2] ''meter'' [1500000000])) None)
                       \<lparr>ts_interp_counter := 1\<rparr>)
                    \<lparr>t_deltas = [1500000000], t_reference = None\<rparr> ''s'') = Inr ts2
          \<and> ts_eq ts2 ((fresh_series (Discrete (sampled_array [3 / 2] ''meter'' [1500000000])) None)
                          \<lparr>ts_interp_counter := 1\<rparr>)
          \<and> ts_eq ((fresh_series (Discrete (sampled_array [3 / 2] ''meter'' [1500000000])) None)
                      \<lparr>ts_interp_counter := 1\<rparr>) ts2)"
proof -
  have d: "ts_data (example_series ''linear'') = Discrete (example_array ''linear'')"
    by (simp add: example_series_def fresh_series_def)
  note idem = interp_time_idempotent
      [where lib = linear_lib and time_unit' = "''s''", OF linear_lib_wf d example_series_linear_at_point]
  show ?thesis
    by (intro conjI) (rule d, rule example_series_linear_at_point, rule idem)
qed


section \<open>Properties of GenericSeries\<close>

lemmas gs_defs = GenericSeries_def init_discrete_def gs_init_expression_def eval_expr_def
  array_probe_def range_quantity_def MathematicalExpression_def num_variables_def
  get_variable_names_def dequantified_def fresh_generic_def gs_call_def expression_input_def
  discrete_input_def plain_pint_def units_of_def gs_dims_def get_expression_dims_def
  param_dims_def da_size_def DataArray_of_value_def
  evaluate_def variable_array_def parameter_array_def me_function_def from_library_def
  DataArray_of_quantity_def DataArray_new_def axis_len_def expand_scalar_def
  identity_expr_def product_expr_def multiply_def multiply_units_def insert_commute Let_def

subsection \<open>The concrete series\<close>

lemma discrete_example_built:
  "GenericSeries plain_pint (GsQuantity \<lparr>q_mag = [1, 2, 3], q_shape = [3], q_units = ''meter''\<rparr>)
     (Some [''x'']) None
     (Some [(''x'', Quantity \<lparr>q_mag = [0, 1, 2], q_shape = [3], q_units = ''second''\<rparr>)]) None None
   = Inr discrete_example"
  by (simp add: gs_defs discrete_example_def)





subsection \<open>The invariant of an expression series\<close>

text \<open>
  \<^verbatim>\<open>GenericSeries._init_expression\<close> leaves a series whose declared units and
  dimensions have distinct keys, one unit per free variable and a dimension for each
  of them, and whose stored unit is the one \<^verbatim>\<open>_eval_expr\<close> has returned.
\<close>

lemma set_parameter_keys:
  assumes "set_parameter e k v = Inr e'"
  shows "me_expression e' = me_expression e
       \<and> set (map fst (me_parameters e')) = insert k (set (map fst (me_parameters e)))
       \<and> k \<in> set (se_free_symbols (me_expression e))
       \<and> (distinct (map fst (me_parameters e)) \<longrightarrow> distinct (map fst (me_parameters e')))"
proof -
  from assms obtain p where k: "k \<in> set (se_free_symbols (me_expression e))"
    and e': "e' = e\<lparr>me_parameters := AList.update k p (me_parameters e)\<rparr>"
    by (auto split: if_splits param_in.splits sum.splits)
  from k show ?thesis unfolding e' by (simp add: dom_update distinct_update)
qed

lemma set_parameters_keys:
  assumes "set_parameters e ps = Inr e'"
    and "distinct (map fst (me_parameters e))"
    and "set (map fst (me_parameters e)) \<subseteq> set (se_free_symbols (me_expression e))"
  shows "me_expression e' = me_expression e \<and> distinct (map fst (me_parameters e'))
       \<and> set (map fst (me_parameters e')) \<subseteq> set (se_free_symbols (me_expression e))"
  using assms
proof (induction ps arbitrary: e)
  case Nil
  then show ?case by simp
next
  case (Cons kv ps)
  obtain k v where kv: "kv = (k, v)" by (cases kv)
  from Cons.prems(1) kv obtain e1 where s: "set_parameter e k v = Inr e1"
    and r: "set_parameters e1 ps = Inr e'" by (auto split: sum.splits)
  from set_parameter_keys [OF s] Cons.prems(2,3)
  have "me_expression e1 = me_expression e" "distinct (map fst (me_parameters e1))"
    "set (map fst (me_parameters e1)) \<subseteq> set (se_free_symbols (me_expression e1))"
    by auto
  with Cons.IH [OF r] show ?case by simp
qed

lemma length_filter_out:
  assumes "distinct xs" and "distinct ks" and "set ks \<subseteq> set xs"
  shows "length (filter (\<lambda>x. x \<notin> set ks) xs) + length ks = length xs"
proof -
  have "distinct (filter (\<lambda>x. x \<in> set ks) xs)" using assms(1) by simp
  moreover have "set (filter (\<lambda>x. x \<in> set ks) xs) = set ks" using assms(3) by auto
  ultimately have "length (filter (\<lambda>x. x \<in> set ks) xs) = card (set ks)"
    by (metis distinct_card)
  with assms(2) have "length (filter (\<lambda>x. x \<in> set ks) xs) = length ks"
    by (simp add: distinct_card)
  moreover have "length (filter (\<lambda>x. x \<in> set ks) xs)
        + length (filter (\<lambda>x. \<not> x \<in> set ks) xs) = length xs"
    by (rule sum_length_filter_compl)
  ultimately show ?thesis by simp
qed

lemma num_variables_names:
  assumes "distinct (se_free_symbols (me_expression e))"
    and "distinct (map fst (me_parameters e))"
    and "set (map fst (me_parameters e)) \<subseteq> set (se_free_symbols (me_expression e))"
  shows "num_variables e = int (length (get_variable_names e))"
  using length_filter_out [OF assms(1) assms(2) assms(3)]
  by (simp add: num_variables_def get_variable_names_def)

lemma check_units_ok:
  "check_units e us = Inr r \<Longrightarrow> r = us \<and> set (map fst us) \<subseteq> set (get_variable_names e)"
  by (induction us arbitrary: r) (fastforce split: if_splits sum.splits)+

lemma default_entries_keys:
  "set (map fst (default_entries f vs m)) = set (map fst m) \<union> set vs"
  by (induction vs arbitrary: m) auto

lemma default_entries_distinct:
  "distinct (map fst m) \<Longrightarrow> distinct (map fst (default_entries f vs m))"
  by (induction vs arbitrary: m) auto


lemma gs_init_expression_invariant:
  assumes built: "gs_init_expression pint data dims parameters units = Inr gs"
    and formula: "data = GsFormula f \<or> (\<exists>e0. data = GsExpr e0 \<and> me_expression e0 = f)"
    and free: "distinct (se_free_symbols f)"
    and du: "distinct (map fst (case units of None \<Rightarrow> [] | Some us \<Rightarrow> us))"
    and dd: "distinct (map fst (case dims of None \<Rightarrow> [] | Some ds \<Rightarrow> ds))"
  shows "\<exists>e ds us pu. probed_generic pint gs e ds us pu \<and> me_expression e = f"
proof -
  from formula have ff: "(case data of GsExpr e \<Rightarrow> me_expression e | GsFormula f \<Rightarrow> f
      | _ \<Rightarrow> \<lparr>se_repr = [], se_free_symbols = [], se_body = (\<lambda>args. Inl (TypeError, []))\<rparr>) = f"
    by auto
  from built obtain ps expr units' eu es
    where me: "MathematicalExpression f ps = Inr expr"
      and cu: "(case units of None \<Rightarrow> Inr [] | Some us \<Rightarrow> check_units expr us) = Inr units'"
      and ev: "eval_expr pint expr
                 (default_entries DimStr (get_variable_names expr)
                    (case dims of None \<Rightarrow> [] | Some ds \<Rightarrow> ds))
                 (default_entries (\<lambda>v. ''dimensionless'') (get_variable_names expr) units')
               = Inr (eu, es)"
      and gs: "gs = \<lparr>gs_data = GsExpression expr,
            gs_variable_units = Some (default_entries (\<lambda>v. ''dimensionless'') (get_variable_names expr) units'),
            gs_symbol_dims = Some (default_entries DimStr (get_variable_names expr)
                                     (case dims of None \<Rightarrow> [] | Some ds \<Rightarrow> ds)),
            gs_shape = es, gs_units = Some eu, gs_interpolation = ''linear''\<rparr>"
    unfolding gs_init_expression_def Let_def ff
    by (auto split: sum.splits if_splits prod.splits)
  from ev have es: "es = None"
    by (auto simp: eval_expr_def split: sum.splits option.splits if_splits prod.splits)
  let ?e0 = "\<lparr>me_expression = f, me_parameters = []\<rparr>"
  have keys: "me_expression expr = f \<and> distinct (map fst (me_parameters expr))
       \<and> set (map fst (me_parameters expr)) \<subseteq> set (se_free_symbols f)"
  proof (cases ps)
    case None
    with me show ?thesis by (auto simp: MathematicalExpression_def)
  next
    case (Some l)
    with me have "set_parameters ?e0 l = Inr expr" by (simp add: MathematicalExpression_def)
    from set_parameters_keys [OF this] show ?thesis by simp
  qed
  with free have nv: "num_variables expr = int (length (get_variable_names expr))"
    by (simp add: num_variables_names)
  from free keys have dnames: "distinct (get_variable_names expr)"
    by (simp add: get_variable_names_def)
  have u': "distinct (map fst units') \<and> set (map fst units') \<subseteq> set (get_variable_names expr)"
  proof (cases units)
    case None
    with cu show ?thesis by simp
  next
    case (Some us)
    with cu du check_units_ok [of expr us units'] show ?thesis by simp
  qed
  let ?us = "default_entries (\<lambda>v. ''dimensionless'') (get_variable_names expr) units'"
  let ?ds = "default_entries DimStr (get_variable_names expr) (case dims of None \<Rightarrow> [] | Some ds \<Rightarrow> ds)"
  have "set (map fst ?us) = set (map fst units') \<union> set (get_variable_names expr)"
    by (rule default_entries_keys)
  with u' have su: "set (map fst ?us) = set (get_variable_names expr)"
    by blast
  from u' have dus: "distinct (map fst ?us)" by (simp add: default_entries_distinct)
  from dd have dds: "distinct (map fst ?ds)" by (simp add: default_entries_distinct)
  from su dus dnames have "length (map fst ?us) = length (get_variable_names expr)"
    by (metis distinct_card)
  with nv have len: "int (length ?us) = num_variables expr" by simp
  have "set (map fst ?ds)
          = set (map fst (case dims of None \<Rightarrow> [] | Some ds \<Rightarrow> ds)) \<union> set (get_variable_names expr)"
    by (rule default_entries_keys)
  with su have sub: "set (map fst ?us) \<subseteq> set (map fst ?ds)" by blast
  from gs dus dds su sub len keys have "expression_series gs expr ?ds ?us"
    by (simp add: expression_series_def)
  with gs ev es keys have "probed_generic pint gs expr ?ds ?us eu \<and> me_expression expr = f"
    by (simp add: probed_generic_def)
  then show ?thesis by blast
qed

subsection \<open>Lists of keyword arguments\<close>




lemma map_kwargs_all:
  assumes "map_kwargs f kw = Inr r" and "(k, v) \<in> set kw"
  shows "\<exists>w. f k v = Inr w"
  using assms
  by (induction kw arbitrary: r) (auto split: sum.splits)



lemma bound_by_left:
  assumes "list_all2 (bound_by sd) bound kw" and "kp \<in> set bound"
  shows "\<exists>kv \<in> set kw. bound_by sd kp kv"
  using assms by (induction rule: list_all2_induct) auto





lemma map_kwargs_keys: "map_kwargs f kw = Inr r \<Longrightarrow> map fst r = map fst kw"
  by (induction kw arbitrary: r) (auto split: sum.splits)

subsection \<open>Partial binding\<close>


lemma expression_input_iff:
  "(\<exists>a. expression_input ds k v = Inr a) = array_over ds k (expand_scalar (Qty v))"
proof (cases "map_of ds k")
  case None
  then show ?thesis by (simp add: expression_input_def array_over_def Let_def)
next
  case (Some d)
  show ?thesis
  proof (cases "dim_first d")
    case (Inl err)
    with Some show ?thesis
      by (simp add: expression_input_def array_over_def single_name_def Let_def)
  next
    case (Inr c)
    with Some show ?thesis
      by (cases "q_shape (expand_scalar (Qty v))"; cases "dim_names d")
        (auto simp: expression_input_def array_over_def single_name_def Let_def
          DataArray_new_def axis_len_def split: if_splits)
  qed
qed














text \<open>
  A variable whose dimension is a string of two or more characters (the default for a
  variable with such a name) cannot be bound at all: \<^verbatim>\<open>__call__\<close> names the coordinate
  after the first character only, and \<^verbatim>\<open>xr.DataArray\<close> refuses a coordinate that is
  not over a dimension of the array.
\<close>

lemma long_name_never_returns:
  assumes d: "gs_data gs = GsExpression e" and sd: "gs_symbol_dims gs = Some ds"
    and kv: "(k, v) \<in> set kwargs"
    and long: "map_of ds k = Some (DimStr s)" "2 \<le> length s"
  shows "\<exists>err. gs_call pint lib gs kwargs = Inl err"
proof (cases "map_kwargs (expression_input ds) kwargs")
  case (Inl err)
  with d sd show ?thesis by (simp add: gs_call_def)
next
  case (Inr input)
  from map_kwargs_all [OF Inr kv] have "array_over ds k (expand_scalar (Qty v))"
    by (simp add: expression_input_iff)
  with long(1) have "single_name (DimStr s)" by (simp add: array_over_def)
  with long(2) have False
    by (cases s) (auto simp: single_name_def)
  then show ?thesis ..
qed





lemma scalar_binding_fails:
  "gs_call plain_pint unused_lib product_series
     [(''x'', Quantity \<lparr>q_mag = [1], q_shape = [], q_units = ''dimensionless''\<rparr>)]
   = Inl (ValueError, Library ''different number of dimensions on data and dims'')"
  by (simp add: gs_defs product_series_def)



subsection \<open>Full binding\<close>











text \<open>
  The series for \<^verbatim>\<open>x\<close> built with \<^verbatim>\<open>units={"x": "meter"}\<close>, called with the scalar
  \<^verbatim>\<open>3 meter\<close>: the scalar is expanded to an array of one value, and the series returned
  has the probed unit.
\<close>

lemma meter_series_built:
  "GenericSeries plain_pint (GsFormula (identity_expr ''x'')) None None None
     (Some [(''x'', ''meter'')]) None
   = Inr meter_series"
  by (simp add: gs_defs meter_series_def upt_rec)



lemma meter_series_at_scalar:
  "gs_call plain_pint unused_lib meter_series
     [(''x'', Quantity \<lparr>q_mag = [3], q_shape = [], q_units = ''meter''\<rparr>)]
   = Inr (fresh_generic (GsDiscrete
       \<lparr>da_data = [3], da_shape = [1], da_units = Some ''meter'', da_dims = [''x''],
        da_coords = [(''x'', \<lparr>c_dims = [''x''], c_data = Numeric [3], c_attrs = []\<rparr>)],
        da_attrs = []\<rparr>))"
  by (simp add: gs_defs meter_series_def)




subsection \<open>Calling a discrete series\<close>

lemma map_kwargs_error:
  assumes "map_kwargs f kw = Inl err"
  shows "\<exists>k v. (k, v) \<in> set kw \<and> f k v = Inl err"
  using assms by (induction kw) (force split: sum.splits)+

lemma discrete_input_error:
  "discrete_input pint a k v = Inl (c, m) \<Longrightarrow> (\<exists>s. m = MissingKey s) \<or> (\<exists>s. m = Library s)"
  by (auto simp: discrete_input_def dequantified_def DataArray_of_quantity_def Let_def
      dest: from_library_not_own DataArray_new_error split: option.splits sum.splits)

lemma discrete_input_coordinate:
  "discrete_input pint a k v = Inr w \<Longrightarrow> k \<in> set (map fst (da_coords a))"
  by (force simp: discrete_input_def Let_def dest: map_of_SomeD split: option.splits)

lemma xr_interp_like_error:
  "xr_interp_like lib a target method = Inl (c, m) \<Longrightarrow> \<exists>s. m = Library s"
  by (auto simp: xr_interp_like_def dest: from_library_not_own split: option.splits)

text \<open>
  The error "'k' is not a valid dimension" is raised only for a key that names a
  coordinate of the data (with a unit the value converts to) without naming a dimension:
  the first loop of \<^verbatim>\<open>__call__\<close> looks every key up among the coordinates before the
  check of the dimensions is reached.
\<close>

lemma not_a_valid_dimension_only_for_coordinates:
  assumes "gs_data gs = GsDiscrete a"
    and "gs_call pint lib gs kwargs = Inl (c, NotAValidDimension k)"
  shows "k \<in> set (map fst (da_coords a)) \<and> k \<notin> set (da_dims a) \<and> k \<in> set (map fst kwargs)"
proof (cases "map_kwargs (discrete_input pint a) kwargs")
  case (Inl err)
  with assms have "err = (c, NotAValidDimension k)" by (simp add: gs_call_def)
  with map_kwargs_error [OF Inl] obtain k' v
    where "discrete_input pint a k' v = Inl (c, NotAValidDimension k)" by blast
  from discrete_input_error [OF this] show ?thesis by auto
next
  case (Inr input)
  show ?thesis
  proof (cases "filter (\<lambda>k. k \<notin> set (da_dims a)) (map fst input)")
    case Nil
    with assms Inr show ?thesis
      by (auto simp: gs_call_def init_discrete_def dest: xr_interp_like_error split: sum.splits)
  next
    case (Cons k' ks)
    with assms Inr have k: "k' = k" by (simp add: gs_call_def)
    from Cons have "k' \<in> set (filter (\<lambda>k. k \<notin> set (da_dims a)) (map fst input))" by simp
    with k have nd: "k \<notin> set (da_dims a)" and kin: "k \<in> set (map fst input)" by auto
    from kin map_kwargs_keys [OF Inr] have kk: "k \<in> set (map fst kwargs)" by simp
    then obtain v where "(k, v) \<in> set kwargs" by auto
    from map_kwargs_all [OF Inr this] obtain w where "discrete_input pint a k v = Inr w" by blast
    from discrete_input_coordinate [OF this] nd kk show ?thesis by simp
  qed
qed

text \<open>
  C9, at a key that is not a dimension.  The discrete series over the dimension \<^verbatim>\<open>x\<close>
  is called with the keyword \<^verbatim>\<open>y\<close>: the call fails in the first loop with the
  \<^verbatim>\<open>KeyError\<close> of the coordinate lookup \<^verbatim>\<open>self._data.coords["y"]\<close>, not with the error
  "'y' is not a valid dimension" of the check that follows the loop.
\<close>

theorem invalid_key_fails_in_lookup:
  "GenericSeries plain_pint (GsQuantity \<lparr>q_mag = [1, 2, 3], q_shape = [3], q_units = ''meter''\<rparr>)
     (Some [''x'']) None
     (Some [(''x'', Quantity \<lparr>q_mag = [0, 1, 2], q_shape = [3], q_units = ''second''\<rparr>)]) None None
     = Inr discrete_example
   \<and> gs_dims discrete_example = {''x''}
   \<and> gs_call plain_pint unused_lib discrete_example
         [(''y'', Quantity \<lparr>q_mag = [1], q_shape = [], q_units = ''second''\<rparr>)]
       = Inl (KeyError, MissingKey ''y'')
   \<and> gs_call plain_pint unused_lib discrete_example
         [(''y'', Quantity \<lparr>q_mag = [1], q_shape = [], q_units = ''second''\<rparr>)]
       \<noteq> Inl (KeyError, NotAValidDimension ''y'')"
  using discrete_example_built
  by (simp add: gs_defs discrete_example_def)


end
